theory Spec2Isabelle
  imports Complex_Main
begin

section \<open>Data model of the acq164 asyn port driver\<close>

text \<open>
  The embedding follows \<^verbatim>\<open>acq164AsynPortDriver.cpp\<close>. C \<^verbatim>\<open>int\<close> values are modelled as
  mathematical integers (the sizes the driver works with, \<^verbatim>\<open>nchan * maxPoints + FRAME_SAMPLES\<close>,
  are far below \<^verbatim>\<open>INT_MAX\<close> wherever the buffers can be allocated at all), and
  \<^verbatim>\<open>epicsFloat64\<close> values as real numbers: rounding is not modelled. A floating-point
  division is kept partial (\<open>fp_div\<close>) because the driver performs one whose divisor can be zero.
\<close>

type_synonym epicsFloat64 = real

text \<open>The parameter indices created by the constructor (lines 106-116).\<close>

datatype param =
    P_Run | P_MaxPoints | P_NoiseAmplitude | P_UpdateTime | P_Waveform | P_Scalar
  | P_TimeBase | P_MinValue | P_MaxValue | P_MeanValue | P_ScanFreq

text \<open>
  The card states of \<^verbatim>\<open>enum STATE\<close> (declared by the acq2xx API, outside the sources); the
  driver names only \<^verbatim>\<open>ST_STOP\<close>. \<^verbatim>\<open>STATUS_OK\<close> is the API's success status.
\<close>

datatype STATE = ST_STOP | ST_ARM | ST_RUN | ST_TRIGGER | ST_POSTPROCESS | ST_CAPDONE

datatype STATUS = STATUS_OK | STATUS_ERR

text \<open>
  An argument of a \<^verbatim>\<open>printf\<close>-style call: a string, an integer, a double, a parameter index
  (printed with \<^verbatim>\<open>%d\<close>), the name of a parameter as \<^verbatim>\<open>getParamName\<close> gives it, a card state
  (printed with \<^verbatim>\<open>%d\<close>) or an \<^verbatim>\<open>asynStatus\<close>.
\<close>

datatype asynStatus = asynSuccess | asynError

datatype arg = S string | I int | D real | P param | PN param | E STATE | A asynStatus

datatype trace_mask = ASYN_TRACE_WARNING | ASYN_TRACEIO_DRIVER

text \<open>
  Everything the driver does to the outside world is an event of the trace: the calls to
  \<^verbatim>\<open>printf\<close> and \<^verbatim>\<open>fprintf(stderr, ...)\<close> with format and arguments, the message written to
  \<^verbatim>\<open>pasynUser->errorMessage\<close>, the asyn callbacks, the commands sent to the card and the
  calls into the data streamer. \<^verbatim>\<open>callParamCallbacks()\<close> without an argument is address 0.
  \<open>DoCallbacksFloat64Array vs n p a\<close> is the call with the \<open>n\<close> elements \<open>vs\<close> the pointer
  points at.
\<close>

datatype event =
    Printf string "arg list"
  | Fprintf_stderr string "arg list"
  | AsynPrint trace_mask string "arg list"
  | ErrorMessage string "arg list"
  | CallParamCallbacks int
  | DoCallbacksFloat64Array "real list" int param int
  | EpicsEventSignal
  | Acq2sh string
  | Acqcmd string
  | AddFrameHandler
  | StreamData

text \<open>
  A frame as the handler reads it: \<^verbatim>\<open>getChannel(ch)\<close> is a pointer to the raw samples of
  channel \<open>ch\<close> (numbered from 1), read at a sample index, and the start-sample number.
\<close>

record frame =
  getChannel :: "int \<Rightarrow> int \<Rightarrow> int"
  getStartSampleNumber :: int

text \<open>
  The accumulator member \<^verbatim>\<open>acc\<close> belongs to a class declared in the driver's header, which
  is not among the sources. Its four operations are parameters of the model, over an
  arbitrary accumulator state \<open>'a\<close>. So are the macros \<^verbatim>\<open>FRAME_SAMPLES\<close> and \<^verbatim>\<open>NSPS\<close>, the
  value \<^verbatim>\<open>get_maxPoints()\<close> returns, and \<^verbatim>\<open>verbose\<close>, which the constructor reads from
  the environment.
\<close>

record 'a config =
  nchan :: int
  maxPoints :: int
  FRAME_SAMPLES :: int
  NSPS :: int
  verbose :: int
  acc_set :: "int \<Rightarrow> epicsFloat64 \<Rightarrow> 'a \<Rightarrow> 'a"
  acc_update_timestamp :: "int \<Rightarrow> 'a \<Rightarrow> bool \<times> 'a"
  acc_get :: "int \<Rightarrow> 'a \<Rightarrow> epicsFloat64"
  acc_clear :: "'a \<Rightarrow> 'a"

text \<open>
  The state of an \<^verbatim>\<open>Acq164Device\<close>. \<open>pData\<close> is the array allocated at \<^verbatim>\<open>pData_\<close> and
  \<open>pTimeBase\<close> the one at \<^verbatim>\<open>pTimeBase_\<close> (an element \<open>None\<close> is a double that is not a finite
  number). \<open>eslo\<close> and \<open>eoff\<close> are the calibration arrays, \<open>iparams\<close> and \<open>dparams\<close> the
  integer and double values of the asyn parameter library (the latter per address),
  \<open>accum\<close> is the member \<^verbatim>\<open>acc\<close>.
\<close>

record 'a Acq164Device =
  cursor :: int
  eslo :: "int \<Rightarrow> epicsFloat64"
  eoff :: "int \<Rightarrow> epicsFloat64"
  pData :: "epicsFloat64 list"
  pTimeBase :: "epicsFloat64 option list"
  accum :: 'a
  iparams :: "param \<Rightarrow> int"
  dparams :: "int \<Rightarrow> param \<Rightarrow> epicsFloat64"
  trace :: "event list"

text \<open>
  How a step can end the process: \<^verbatim>\<open>exit(n)\<close>, a failed \<^verbatim>\<open>assert\<close>, or undefined
  behaviour of C, which the model stops at: an integer division by zero, an access outside
  an allocated array. The state at that point (with its trace) is kept.
\<close>

datatype halt = Exit int | AssertionFailed | DivisionByZero | OutOfBounds

datatype 's outcome = Continue 's | Halt halt 's

definition emit :: "event list \<Rightarrow> 'a Acq164Device \<Rightarrow> 'a Acq164Device" where
  "emit es st = st\<lparr>trace := trace st @ es\<rparr>"

definition setDoubleParam ::
  "int \<Rightarrow> param \<Rightarrow> epicsFloat64 \<Rightarrow> 'a Acq164Device \<Rightarrow> 'a Acq164Device" where
  "setDoubleParam addr p v st = st\<lparr>dparams := (dparams st)(addr := (dparams st addr)(p := v))\<rparr>"

definition setIntegerParam :: "param \<Rightarrow> int \<Rightarrow> 'a Acq164Device \<Rightarrow> 'a Acq164Device" where
  "setIntegerParam p v st = st\<lparr>iparams := (iparams st)(p := v)\<rparr>"

text \<open>C's integer division truncates towards zero and is undefined for a zero divisor.\<close>

definition c_div :: "int \<Rightarrow> int \<Rightarrow> int option" where
  "c_div a b = (if b = 0 then None else Some (sgn a * sgn b * (\<bar>a\<bar> div \<bar>b\<bar>)))"

text \<open>A floating-point division gives no finite number when the divisor is zero.\<close>

definition fp_div :: "real \<Rightarrow> real \<Rightarrow> real option" where
  "fp_div a b = (if b = 0 then None else Some (a / b))"

section \<open>The frame handler\<close>

text \<open>
  Lines 407-409: calibrate the raw sample, store it at \<^verbatim>\<open>pData_[ix0+cursor+id]\<close> with
  \<^verbatim>\<open>ix0 = ic*maxPoints\<close>, and feed the accumulator. A store outside the allocated array
  stops the model.
\<close>

definition calibrate :: "'a Acq164Device \<Rightarrow> int \<Rightarrow> int \<Rightarrow> epicsFloat64" where
  "calibrate st ic yy = eslo st ic * real_of_int yy + eoff st ic"

definition write_index :: "'a config \<Rightarrow> int \<Rightarrow> int \<Rightarrow> int \<Rightarrow> int" where
  "write_index cfg cur ic idx = ic * maxPoints cfg + cur + idx"

definition in_bounds :: "'b list \<Rightarrow> int \<Rightarrow> bool" where
  "in_bounds xs i = (0 \<le> i \<and> i < int (length xs))"

definition store_sample ::
  "'a config \<Rightarrow> int \<Rightarrow> int \<Rightarrow> int \<Rightarrow> 'a Acq164Device \<Rightarrow> 'a Acq164Device" where
  "store_sample cfg ic idx yy st =
     (let volts = calibrate st ic yy
      in st\<lparr>pData := (pData st)[nat (write_index cfg (cursor st) ic idx) := volts],
            accum := acc_set cfg ic volts (accum st)\<rparr>)"

definition zeros_detected :: "frame \<Rightarrow> event" where
  "zeros_detected fr =
     Printf ''%s zeros detected at %lld\<newline>'' [S ''onFrame'', I (getStartSampleNumber fr)]"

text \<open>
  Lines 399-410, the loop over the samples of channel \<open>ic\<close>, from sample index \<open>idx\<close>
  (the source's \<^verbatim>\<open>id\<close>) with the current value of \<^verbatim>\<open>consecutive_zeros\<close>. The counter has
  no \<^verbatim>\<open>else\<close> branch in the source: a non-zero sample leaves it as it is.
\<close>

function sample_loop ::
  "'a config \<Rightarrow> frame \<Rightarrow> int \<Rightarrow> int \<Rightarrow> int \<Rightarrow> 'a Acq164Device \<Rightarrow> 'a Acq164Device outcome" where
  "sample_loop cfg fr ic idx consecutive_zeros st =
     (if idx < FRAME_SAMPLES cfg then
        (let yy = getChannel fr (ic + 1) idx;
             cz = (if yy = 0 then consecutive_zeros + 1 else consecutive_zeros)
         in if yy = 0 \<and> cz > 60 then Halt (Exit 1) (emit [zeros_detected fr] st)
            else if \<not> in_bounds (pData st) (write_index cfg (cursor st) ic idx)
            then Halt OutOfBounds st
            else sample_loop cfg fr ic (idx + 1) cz (store_sample cfg ic idx yy st))
      else Continue st)"
  by pat_completeness auto
termination
  by (relation "measure (\<lambda>(cfg, fr, ic, idx, cz, st). nat (FRAME_SAMPLES cfg - idx))") auto

declare sample_loop.simps [simp del]

text \<open>Lines 395-411, the loop over the channels; each channel starts its counter at 0.\<close>

function chan_loop ::
  "'a config \<Rightarrow> frame \<Rightarrow> int \<Rightarrow> 'a Acq164Device \<Rightarrow> 'a Acq164Device outcome" where
  "chan_loop cfg fr ic st =
     (if ic < nchan cfg then
        (case sample_loop cfg fr ic 0 0 st of
           Halt h st' \<Rightarrow> Halt h st'
         | Continue st' \<Rightarrow> chan_loop cfg fr (ic + 1) st')
      else Continue st)"
  by pat_completeness auto
termination
  by (relation "measure (\<lambda>(cfg, fr, ic, st). nat (nchan cfg - ic))") auto

declare chan_loop.simps [simp del]

text \<open>
  Lines 418-422, the loop that publishes the accumulated scalar of every channel, and
  lines 417-424 around it.
\<close>

function scalar_loop :: "'a config \<Rightarrow> int \<Rightarrow> 'a Acq164Device \<Rightarrow> 'a Acq164Device" where
  "scalar_loop cfg ic st =
     (if ic < nchan cfg then
        (let v = acc_get cfg ic (accum st);
             st1 = (if verbose cfg \<noteq> 0 \<and> ic < 3
                    then emit [Printf ''setDoubleParam(%d %d %f\<newline>'' [I ic, P P_Scalar, D v]] st
                    else st)
         in scalar_loop cfg (ic + 1) (emit [CallParamCallbacks ic] (setDoubleParam ic P_Scalar v st1)))
      else st)"
  by pat_completeness auto
termination
  by (relation "measure (\<lambda>(cfg, ic, st). nat (nchan cfg - ic))") auto

declare scalar_loop.simps [simp del]

definition flush :: "'a config \<Rightarrow> int \<Rightarrow> 'a Acq164Device \<Rightarrow> 'a Acq164Device" where
  "flush cfg period st =
     (case acc_update_timestamp cfg period (accum st) of
        (due, a) \<Rightarrow>
          (if due
           then (let st1 = scalar_loop cfg 0 (st\<lparr>accum := a\<rparr>)
                 in st1\<lparr>accum := acc_clear cfg (accum st1)\<rparr>)
           else st\<lparr>accum := a\<rparr>))"

text \<open>
  Lines 426-436: when the cursor has reached \<^verbatim>\<open>maxPoints\<close>, every channel's segment
  \<^verbatim>\<open>pData_ + ic*maxPoints\<close> of \<^verbatim>\<open>maxPoints\<close> elements is handed to the array callback and
  the cursor returns to 0. The segments lie inside an array of \<^verbatim>\<open>nchan*maxPoints\<close> elements,
  which is what the constructor allocates.
\<close>

definition segment :: "'a config \<Rightarrow> 'a Acq164Device \<Rightarrow> int \<Rightarrow> epicsFloat64 list" where
  "segment cfg st ic = take (nat (maxPoints cfg)) (drop (nat (ic * maxPoints cfg)) (pData st))"

definition waveform_event :: "'a config \<Rightarrow> 'a Acq164Device \<Rightarrow> int \<Rightarrow> event" where
  "waveform_event cfg st ic = DoCallbacksFloat64Array (segment cfg st ic) (maxPoints cfg) P_Waveform ic"

function waveform_loop :: "'a config \<Rightarrow> int \<Rightarrow> 'a Acq164Device \<Rightarrow> 'a Acq164Device" where
  "waveform_loop cfg ic st =
     (if ic < nchan cfg then waveform_loop cfg (ic + 1) (emit [waveform_event cfg st ic] st)
      else st)"
  by pat_completeness auto
termination
  by (relation "measure (\<lambda>(cfg, ic, st). nat (nchan cfg - ic))") auto

declare waveform_loop.simps [simp del]

definition publish :: "'a config \<Rightarrow> frame \<Rightarrow> 'a Acq164Device \<Rightarrow> 'a Acq164Device" where
  "publish cfg fr st =
     (if cursor st \<ge> maxPoints cfg
      then (let st1 = setDoubleParam 0 P_UpdateTime (real_of_int (getStartSampleNumber fr)) st;
                st2 = emit [CallParamCallbacks 0] st1;
                st3 = waveform_loop cfg 0 st2
            in st3\<lparr>cursor := 0\<rparr>)
      else st)"

text \<open>
  \<^verbatim>\<open>Acq164Device::onFrame\<close>, lines 387-437. The scan frequency is read from the parameter
  library in every call and divides \<^verbatim>\<open>NSPS\<close> as it is.
\<close>

definition onFrame :: "'a config \<Rightarrow> frame \<Rightarrow> 'a Acq164Device \<Rightarrow> 'a Acq164Device outcome" where
  "onFrame cfg fr st =
     (case chan_loop cfg fr 0 st of
        Halt h st' \<Rightarrow> Halt h st'
      | Continue st1 \<Rightarrow>
          (let st2 = st1\<lparr>cursor := cursor st1 + FRAME_SAMPLES cfg\<rparr>;
               scan_freq = iparams st2 P_ScanFreq
           in case c_div (NSPS cfg) scan_freq of
                None \<Rightarrow> Halt DivisionByZero st2
              | Some period \<Rightarrow> Continue (publish cfg fr (flush cfg period st2))))"

text \<open>
  The data streamer belongs to the acq2xx API. \<^verbatim>\<open>streamData\<close> hands the frames the transport
  yields to the registered handler, one after the other in arrival order, until the
  transport ends; a handler that ends the process ends the loop with it.
\<close>

fun streamData ::
  "'a config \<Rightarrow> frame list \<Rightarrow> 'a Acq164Device \<Rightarrow> 'a Acq164Device outcome" where
  "streamData cfg [] st = Continue st"
| "streamData cfg (fr # frs) st =
     (case onFrame cfg fr st of
        Halt h st' \<Rightarrow> Halt h st'
      | Continue st' \<Rightarrow> streamData cfg frs st')"

section \<open>Calibration, setup and the streaming task\<close>

text \<open>
  The card (\<open>acq\<close>) as the driver uses it: the result of \<^verbatim>\<open>getState\<close>, the array \<^verbatim>\<open>ranges\<close> as
  \<^verbatim>\<open>getChannelRanges\<close> fills it (channel \<open>ii\<close>, counted from 0, is read at \<open>ii + 1\<close>), and the
  frames its transport yields to the data streamer.
\<close>

record acq2xx_VRange =
  vmin :: real
  vmax :: real

record Acq2xx =
  getState :: "STATUS \<times> STATE"
  getChannelRanges :: "int \<Rightarrow> acq2xx_VRange"
  frames :: "frame list"

text \<open>Lines 348-349: \<^verbatim>\<open>X1 = -(1<<23)\<close>, \<^verbatim>\<open>X2 = 1<<23\<close>.\<close>

definition X1 :: int where
  "X1 = - (2 ^ 23)"

definition X2 :: int where
  "X2 = 2 ^ 23"

text \<open>Lines 354-362, the loop of \<^verbatim>\<open>compute_cal\<close> from channel \<open>ii\<close>, and lines 343-365.\<close>

function cal_loop :: "'a config \<Rightarrow> Acq2xx \<Rightarrow> int \<Rightarrow> 'a Acq164Device \<Rightarrow> 'a Acq164Device" where
  "cal_loop cfg acq ii st =
     (if ii < nchan cfg then
        (let Y1 = vmin (getChannelRanges acq (ii + 1));
             Y2 = vmax (getChannelRanges acq (ii + 1));
             ESLO = (Y2 - Y1) / real_of_int (X2 - X1);
             EOFF = Y1 - real_of_int X1 * ESLO;
             st1 = (if verbose cfg \<noteq> 0
                    then emit [Printf ''[%2d] Y1:%.2f Y2:%.2f %x ESLO:%.5g EOFF:%.5f\<newline>''
                                 [I ii, D Y1, D Y2, I (X2 - X1), D ESLO, D EOFF]] st
                    else st)
         in cal_loop cfg acq (ii + 1) (st1\<lparr>eslo := (eslo st1)(ii := ESLO), eoff := (eoff st1)(ii := EOFF)\<rparr>))
      else st)"
  by pat_completeness auto
termination
  by (relation "measure (\<lambda>(cfg, acq, ii, st). nat (nchan cfg - ii))") auto

declare cal_loop.simps [simp del]

definition compute_cal :: "'a config \<Rightarrow> Acq2xx \<Rightarrow> 'a Acq164Device \<Rightarrow> 'a Acq164Device" where
  "compute_cal cfg acq st =
     cal_loop cfg acq 0
       (if verbose cfg \<noteq> 0 then emit [Printf ''nchan:%d\<newline>'' [I (nchan cfg)]] st else st)"

text \<open>\<^verbatim>\<open>Acq164Device::setup\<close>, lines 367-385.\<close>

definition not_stopped_message :: "STATE \<Rightarrow> event" where
  "not_stopped_message state =
     Fprintf_stderr ''card state:%d let it run, or abort if you want it to be reconfigured\<newline>''
       [E state]"

definition arm_commands :: "event list" where
  "arm_commands =
     [Acq2sh ''set.dtacq channel_mask 1'', Acq2sh ''set.acq164.role MASTER 20'',
      Acqcmd ''setMode SOFT_CONTINUOUS 1'', Acqcmd ''setArm'']"

definition Acq164Device_setup :: "Acq2xx \<Rightarrow> 'a Acq164Device \<Rightarrow> 'a Acq164Device outcome" where
  "Acq164Device_setup acq st =
     (case getState acq of
        (rc, state) \<Rightarrow>
          (if rc \<noteq> STATUS_OK
           then Halt (Exit 1) (emit [Fprintf_stderr ''ERROR: failed to get state\<newline>'' []] st)
           else if state \<noteq> ST_STOP then Continue (emit [not_stopped_message state] st)
           else Continue (emit arm_commands st)))"

text \<open>
  \<^verbatim>\<open>Acq164Device::task\<close>, lines 441-458: calibration, setup, then the handler is registered
  and the streaming loop entered, whichever way \<^verbatim>\<open>setup\<close> returned.
\<close>

definition task :: "'a config \<Rightarrow> Acq2xx \<Rightarrow> 'a Acq164Device \<Rightarrow> 'a Acq164Device outcome" where
  "task cfg acq st =
     (case Acq164Device_setup acq (compute_cal cfg acq st) of
        Halt h st' \<Rightarrow> Halt h st'
      | Continue st1 \<Rightarrow>
          streamData cfg (frames acq) (emit [StreamData] (emit [AddFrameHandler] st1)))"

section \<open>Construction and the asyn interface\<close>

definition NUM_DIVISIONS :: real where
  "NUM_DIVISIONS = 10"

definition MIN_UPDATE_TIME :: real where
  "MIN_UPDATE_TIME = 0.02"

definition driverName :: string where
  "driverName = ''acq164AsynPortDriver''"

text \<open>Line 103, the loop that sets the time base, from index \<open>i\<close>.\<close>

definition timebase_value :: "int \<Rightarrow> int \<Rightarrow> epicsFloat64 option" where
  "timebase_value maxPoints' i =
     map_option (\<lambda>q. q * NUM_DIVISIONS) (fp_div (real_of_int i) (real_of_int (maxPoints' - 1)))"

function timebase_loop ::
  "int \<Rightarrow> int \<Rightarrow> epicsFloat64 option list \<Rightarrow> epicsFloat64 option list" where
  "timebase_loop maxPoints' i tb =
     (if i < maxPoints' then timebase_loop maxPoints' (i + 1) (tb[nat i := timebase_value maxPoints' i])
      else tb)"
  by pat_completeness auto
termination
  by (relation "measure (\<lambda>(maxPoints', i, tb). nat (maxPoints' - i))") auto

declare timebase_loop.simps [simp del]

text \<open>
  The constructors, lines 78-140 and 317-329, applied to the object \<open>st\<close> as it is before
  they run: members they do not set (\<^verbatim>\<open>eslo\<close>, \<^verbatim>\<open>eoff\<close>, parameters without an initial value)
  keep what \<open>st\<close> has; \<open>a\<close> is the accumulator as its own constructor leaves it.
  \<^verbatim>\<open>calloc\<close> gives zeroed arrays.
\<close>

definition effective_maxPoints :: "int \<Rightarrow> int" where
  "effective_maxPoints maxPoints' = (if maxPoints' < 1 then 100 else maxPoints')"

definition Acq164Device_ctor :: "int \<Rightarrow> int \<Rightarrow> 'a \<Rightarrow> 'a Acq164Device \<Rightarrow> 'a Acq164Device" where
  "Acq164Device_ctor maxPoints_arg nchan_arg a st =
     (let maxPoints' = effective_maxPoints maxPoints_arg;
          st1 = st\<lparr>accum := a,
                   pData := replicate (nat (maxPoints' * nchan_arg)) 0,
                   pTimeBase := timebase_loop maxPoints' 0 (replicate (nat maxPoints') (Some 0))\<rparr>;
          st2 = setIntegerParam P_Run 0 (setIntegerParam P_MaxPoints maxPoints' st1);
          st3 = setDoubleParam 0 P_MeanValue 0.0 (setDoubleParam 0 P_MaxValue 3.3
                  (setDoubleParam 0 P_MinValue 0.0 (setDoubleParam 0 P_NoiseAmplitude 0.1
                    (setDoubleParam 0 P_UpdateTime 0.5 st2))))
      in st3\<lparr>cursor := 0\<rparr>)"

text \<open>
  The last lines of the write functions, 176-184 and 226-234: the status of
  \<^verbatim>\<open>callParamCallbacks\<close> decides between the error message and the trace print.
\<close>

definition report_write :: "asynStatus \<Rightarrow> string \<Rightarrow> string \<Rightarrow> param \<Rightarrow> arg \<Rightarrow> event" where
  "report_write status functionName conv function v =
     (if status \<noteq> asynSuccess
      then ErrorMessage (''%s:%s: status=%d, function=%d, name=%s, value='' @ conv)
             [S driverName, S functionName, A status, P function, PN function, v]
      else AsynPrint ASYN_TRACEIO_DRIVER (''%s:%s: function=%d, name=%s, value='' @ conv @ ''\<newline>'')
             [S driverName, S functionName, P function, PN function, v])"

text \<open>
  \<^verbatim>\<open>writeInt32\<close>, lines 151-185. \<open>cb\<close> is the status \<^verbatim>\<open>callParamCallbacks\<close> returns, which
  the asyn library decides.
\<close>

definition writeInt32 ::
  "asynStatus \<Rightarrow> param \<Rightarrow> int \<Rightarrow> 'a Acq164Device \<Rightarrow> asynStatus \<times> 'a Acq164Device" where
  "writeInt32 cb function v st =
     (let st1 = setIntegerParam function v st;
          st2 = (if function = P_Run \<and> v \<noteq> 0 then emit [EpicsEventSignal] st1 else st1);
          st3 = emit [CallParamCallbacks 0] st2;
          status = cb
      in (status, emit [report_write status ''writeInt32'' ''%d'' function (I v)] st3))"

text \<open>\<^verbatim>\<open>writeFloat64\<close>, lines 192-235.\<close>

definition update_time_warning :: "epicsFloat64 \<Rightarrow> event" where
  "update_time_warning v =
     AsynPrint ASYN_TRACE_WARNING
       ''%s:%s: warning, update time too small, changed from %f to %f\<newline>''
       [S driverName, S ''writeFloat64'', D v, D MIN_UPDATE_TIME]"

definition writeFloat64 ::
  "asynStatus \<Rightarrow> param \<Rightarrow> epicsFloat64 \<Rightarrow> 'a Acq164Device \<Rightarrow> asynStatus \<times> 'a Acq164Device" where
  "writeFloat64 cb function v st =
     (let st1 = setDoubleParam 0 function v st;
          (v2, st2) =
            (if function = P_UpdateTime then
               (let (v1, s1) =
                      (if v < MIN_UPDATE_TIME
                       then (MIN_UPDATE_TIME,
                             setDoubleParam 0 P_UpdateTime MIN_UPDATE_TIME
                               (emit [update_time_warning v] st1))
                       else (v, st1));
                    run = iparams s1 P_Run
                in (v1, if run \<noteq> 0 then emit [EpicsEventSignal] s1 else s1))
             else (v, st1));
          st3 = emit [CallParamCallbacks 0] st2;
          status = cb
      in (status, emit [report_write status ''writeFloat64'' ''%f'' function (D v2)] st3))"

text \<open>
  \<^verbatim>\<open>readFloat64Array\<close>, lines 244-275. \<open>w\<close> is the width of \<^verbatim>\<open>size_t\<close> in bits, to which
  the integer parameter is converted; \<open>val\<close> is the caller's array and \<open>nIn\<close> what
  \<^verbatim>\<open>*nIn\<close> holds before the call. The time stamp is not modelled. \<^verbatim>\<open>memcpy\<close> outside either
  array stops the model.
\<close>

definition to_size_t :: "nat \<Rightarrow> int \<Rightarrow> nat" where
  "to_size_t w i = nat (i mod 2 ^ w)"

record 'a read_result =
  status :: asynStatus
  val :: "epicsFloat64 option list"
  nIn :: nat
  dev :: "'a Acq164Device"

definition readFloat64Array ::
  "nat \<Rightarrow> param \<Rightarrow> epicsFloat64 option list \<Rightarrow> nat \<Rightarrow> nat \<Rightarrow> 'a Acq164Device
     \<Rightarrow> 'a read_result outcome" where
  "readFloat64Array w function val0 nElements nIn0 st =
     (let itemp = iparams st P_MaxPoints;
          ncopy0 = to_size_t w itemp;
          ncopy = (if nElements < ncopy0 then nElements else ncopy0);
          r = \<lparr>status = asynSuccess, val = val0, nIn = nIn0, dev = st\<rparr>;
          done = (\<lambda>r. Continue (r\<lparr>dev := emit [AsynPrint ASYN_TRACEIO_DRIVER ''%s:%s: function=%d\<newline>''
                                  [S driverName, S ''readFloat64Array'', P function]] (dev r)\<rparr>))
      in if function = P_Waveform then Halt AssertionFailed r
         else if function = P_TimeBase then
           (if ncopy > length (pTimeBase st) \<or> ncopy > length val0 then Halt OutOfBounds r
            else done (r\<lparr>val := take ncopy (pTimeBase st) @ drop ncopy val0, nIn := ncopy\<rparr>))
         else done r)"

section \<open>Reading outcomes, and concrete inputs\<close>

definition halt_of :: "'s outcome \<Rightarrow> halt option" where
  "halt_of r = (case r of Halt h s \<Rightarrow> Some h | Continue s \<Rightarrow> None)"

definition state_of :: "'s outcome \<Rightarrow> 's" where
  "state_of r = (case r of Halt h s \<Rightarrow> s | Continue s \<Rightarrow> s)"

text \<open>The events a step from \<open>st\<close> to \<open>st'\<close> added, and the array callbacks among events.\<close>

definition new_events :: "'a Acq164Device \<Rightarrow> 'a Acq164Device \<Rightarrow> event list" where
  "new_events st st' = drop (length (trace st)) (trace st')"

fun is_waveform :: "event \<Rightarrow> bool" where
  "is_waveform (DoCallbacksFloat64Array vs n p a) = (p = P_Waveform)"
| "is_waveform e = False"

fun callback_addr :: "event \<Rightarrow> int" where
  "callback_addr (DoCallbacksFloat64Array vs n p a) = a"
| "callback_addr (CallParamCallbacks a) = a"
| "callback_addr e = 0"

text \<open>
  A small accumulator to run the model with: per-channel sums and the number of samples
  of channel 0 since the last flush, which is due when that number has reached the period.
\<close>

definition example_cfg :: "int \<Rightarrow> int \<Rightarrow> int \<Rightarrow> ((int \<Rightarrow> real) \<times> int) config" where
  "example_cfg n m fs =
     \<lparr>nchan = n, maxPoints = m, FRAME_SAMPLES = fs, NSPS = 1000, verbose = 0,
      acc_set = (\<lambda>ic v (s, k). (s(ic := s ic + v), if ic = 0 then k + 1 else k)),
      acc_update_timestamp = (\<lambda>period (s, k). (period \<le> k, (s, k))),
      acc_get = (\<lambda>ic (s, k). s ic / real_of_int k),
      acc_clear = (\<lambda>(s, k). ((\<lambda>ic. 0), 0))\<rparr>"

text \<open>
  An object before its constructors have run: empty arrays, no parameter set, and a cursor
  that is not 0.
\<close>

definition example_acc :: "(int \<Rightarrow> real) \<times> int" where
  "example_acc = ((\<lambda>ic. 0), 0)"

definition blank :: "((int \<Rightarrow> real) \<times> int) Acq164Device" where
  "blank = \<lparr>cursor = 7, eslo = (\<lambda>ic. 0), eoff = (\<lambda>ic. 0), pData = [], pTimeBase = [],
            accum = example_acc, iparams = (\<lambda>p. 0), dparams = (\<lambda>a p. 0), trace = []\<rparr>"

definition example_card :: "STATE \<Rightarrow> frame list \<Rightarrow> Acq2xx" where
  "example_card state frs =
     \<lparr>getState = (STATUS_OK, state),
      getChannelRanges = (\<lambda>ii. \<lparr>vmin = - 5, vmax = 5\<rparr>),
      frames = frs\<rparr>"

text \<open>
  A device of \<open>n\<close> channels and \<open>m\<close> points per channel, constructed, calibrated for the
  range from -5 to 5 volts, with the scan frequency set to 10.
\<close>

definition example_dev :: "int \<Rightarrow> int \<Rightarrow> ((int \<Rightarrow> real) \<times> int) Acq164Device" where
  "example_dev n m =
     setIntegerParam P_ScanFreq 10
       (compute_cal (example_cfg n m 64) (example_card ST_STOP [])
          (Acq164Device_ctor m n example_acc blank))"

definition frame_of :: "(int \<Rightarrow> int \<Rightarrow> int) \<Rightarrow> int \<Rightarrow> frame" where
  "frame_of raw start = \<lparr>getChannel = raw, getStartSampleNumber = start\<rparr>"

text \<open>
  Frames: every sample 1; every channel with 60 zeros, then a 1 at sample 60, then zeros
  again; channel 1 all zero and every other channel all 1; channel 2 all zero and every
  other channel all 1.
\<close>

definition frame_ones :: frame where
  "frame_ones = frame_of (\<lambda>ch i. 1) 0"

definition frame_60_zeros_1_zeros :: frame where
  "frame_60_zeros_1_zeros = frame_of (\<lambda>ch i. if i = 60 then 1 else 0) 4096"

definition frame_zeros_ch1 :: frame where
  "frame_zeros_ch1 = frame_of (\<lambda>ch i. if ch = 1 then 0 else 1) 4096"

definition frame_zeros_ch2 :: frame where
  "frame_zeros_ch2 = frame_of (\<lambda>ch i. if ch = 2 then 0 else 1) 4096"

text \<open>
  What the loops of the frame handler leave as it is: the cursor, the integer parameters,
  the time base, the calibration and the size of the waveform array.
\<close>

definition unchanged :: "'a Acq164Device \<Rightarrow> 'a Acq164Device \<Rightarrow> bool" where
  "unchanged st s =
     (cursor s = cursor st \<and> iparams s = iparams st \<and> pTimeBase s = pTimeBase st \<and>
      eslo s = eslo st \<and> eoff s = eoff st \<and> length (pData s) = length (pData st))"

section \<open>Basic facts\<close>

lemmas example_defs =
  example_cfg_def example_acc_def blank_def example_card_def example_dev_def frame_of_def frame_ones_def
  Acq164Device_ctor_def
  effective_maxPoints_def compute_cal_def setIntegerParam_def setDoubleParam_def X1_def X2_def

lemmas step_defs =
  in_bounds_def write_index_def store_sample_def calibrate_def emit_def zeros_detected_def
  halt_of_def state_of_def c_div_def Let_def

lemmas run_defs =
  onFrame_def chan_loop.simps sample_loop.simps cal_loop.simps scalar_loop.simps
  waveform_loop.simps flush_def publish_def example_defs step_defs

lemma state_of_simps: "state_of (Continue s) = s" "state_of (Halt h s) = s"
  by (simp_all add: state_of_def)

lemma halt_of_simps: "halt_of (Continue s) = None" "halt_of (Halt h s) = Some h"
  by (simp_all add: halt_of_def)

lemma Continue_state_of: "halt_of r = None \<Longrightarrow> r = Continue (state_of r)"
  by (cases r) (simp_all add: halt_of_def state_of_def)

lemma Halt_state_of: "halt_of r = Some h \<Longrightarrow> r = Halt h (state_of r)"
  by (cases r) (simp_all add: halt_of_def state_of_def)

lemma unchanged_refl [simp]: "unchanged st st"
  by (simp add: unchanged_def)

lemma unchanged_trans: "unchanged a b \<Longrightarrow> unchanged b c \<Longrightarrow> unchanged a c"
  by (simp add: unchanged_def)

lemma emit_fields [simp]:
  "cursor (emit es st) = cursor st" "pData (emit es st) = pData st"
  "iparams (emit es st) = iparams st" "dparams (emit es st) = dparams st"
  "pTimeBase (emit es st) = pTimeBase st" "eslo (emit es st) = eslo st"
  "eoff (emit es st) = eoff st" "accum (emit es st) = accum st"
  "trace (emit es st) = trace st @ es"
  by (simp_all add: emit_def)

lemma emit_emit: "emit es (emit es' st) = emit (es' @ es) st"
  by (simp add: emit_def)

lemma store_sample_fields [simp]:
  "cursor (store_sample cfg ic idx yy st) = cursor st"
  "iparams (store_sample cfg ic idx yy st) = iparams st"
  "pTimeBase (store_sample cfg ic idx yy st) = pTimeBase st"
  "eslo (store_sample cfg ic idx yy st) = eslo st"
  "eoff (store_sample cfg ic idx yy st) = eoff st"
  "trace (store_sample cfg ic idx yy st) = trace st"
  "length (pData (store_sample cfg ic idx yy st)) = length (pData st)"
  by (simp_all add: store_sample_def Let_def)

lemma setDoubleParam_fields [simp]:
  "cursor (setDoubleParam a p v st) = cursor st" "pData (setDoubleParam a p v st) = pData st"
  "iparams (setDoubleParam a p v st) = iparams st"
  "pTimeBase (setDoubleParam a p v st) = pTimeBase st" "eslo (setDoubleParam a p v st) = eslo st"
  "eoff (setDoubleParam a p v st) = eoff st" "accum (setDoubleParam a p v st) = accum st"
  "trace (setDoubleParam a p v st) = trace st"
  by (simp_all add: setDoubleParam_def)

lemma setIntegerParam_fields [simp]:
  "cursor (setIntegerParam p v st) = cursor st" "pData (setIntegerParam p v st) = pData st"
  "dparams (setIntegerParam p v st) = dparams st"
  "pTimeBase (setIntegerParam p v st) = pTimeBase st" "eslo (setIntegerParam p v st) = eslo st"
  "eoff (setIntegerParam p v st) = eoff st" "accum (setIntegerParam p v st) = accum st"
  "trace (setIntegerParam p v st) = trace st"
  by (simp_all add: setIntegerParam_def)

lemma unchanged_store_sample [simp]: "unchanged st (store_sample cfg ic idx yy st)"
  by (simp add: unchanged_def)

section \<open>Effects of the loops of the frame handler\<close>

text \<open>
  A run of the sample loop leaves the cursor, the parameters, the time base, the
  calibration and the size of the waveform array as they are, and adds to the trace only
  the diagnostic of the stuck-at-zero exit.
\<close>

lemma sample_loop_effect:
  "case sample_loop cfg fr ic idx cz st of
     Continue s \<Rightarrow> unchanged st s \<and> trace s = trace st
   | Halt h s \<Rightarrow> unchanged st s \<and>
       (h = Exit 1 \<and> trace s = trace st @ [zeros_detected fr] \<or>
        h = OutOfBounds \<and> trace s = trace st)"
proof (induction cfg fr ic idx cz st rule: sample_loop.induct)
  case (1 cfg fr ic idx cz st)
  show ?case
    using "1.IH"
    by (subst sample_loop.simps) (auto simp: Let_def unchanged_def split: outcome.splits)
qed

lemma chan_loop_effect:
  "case chan_loop cfg fr ic st of
     Continue s \<Rightarrow> unchanged st s \<and> trace s = trace st
   | Halt h s \<Rightarrow> unchanged st s \<and>
       (h = Exit 1 \<and> trace s = trace st @ [zeros_detected fr] \<or>
        h = OutOfBounds \<and> trace s = trace st)"
proof (induction cfg fr ic st rule: chan_loop.induct)
  case (1 cfg fr ic st)
  show ?case
    using "1.IH" sample_loop_effect [where cfg = cfg and fr = fr and ic = ic and idx = 0 and cz = 0 and st = st]
    by (subst chan_loop.simps) (auto simp: unchanged_def split: outcome.splits)
qed

lemma sample_loop_step:
  assumes "idx < FRAME_SAMPLES cfg"
    and "\<not> (getChannel fr (ic + 1) idx = 0 \<and> 60 < cz + 1)"
    and "in_bounds (pData st) (write_index cfg (cursor st) ic idx)"
  shows "sample_loop cfg fr ic idx cz st =
           sample_loop cfg fr ic (idx + 1)
             (if getChannel fr (ic + 1) idx = 0 then cz + 1 else cz)
             (store_sample cfg ic idx (getChannel fr (ic + 1) idx) st)"
  using assms by (subst sample_loop.simps) (auto simp: Let_def)

lemma sample_loop_stop:
  assumes "idx < FRAME_SAMPLES cfg"
    and "getChannel fr (ic + 1) idx = 0 \<and> 60 < cz + 1 \<or>
         \<not> in_bounds (pData st) (write_index cfg (cursor st) ic idx)"
  shows "halt_of (sample_loop cfg fr ic idx cz st) \<noteq> None"
  using assms by (subst sample_loop.simps) (auto simp: Let_def halt_of_simps)

lemma sample_loop_out_of_bounds:
  "idx \<le> j \<Longrightarrow> j < FRAME_SAMPLES cfg \<Longrightarrow>
   \<not> in_bounds (pData st) (write_index cfg (cursor st) ic j) \<Longrightarrow>
   halt_of (sample_loop cfg fr ic idx cz st) \<noteq> None"
proof (induction cfg fr ic idx cz st rule: sample_loop.induct)
  case (1 cfg fr ic idx cz st)
  have lt: "idx < FRAME_SAMPLES cfg"
    using "1.prems" by simp
  let ?yy = "getChannel fr (ic + 1) idx"
  let ?cz = "if ?yy = 0 then cz + 1 else cz"
  show ?case
  proof (cases "(?yy = 0 \<and> 60 < cz + 1) \<or>
                \<not> in_bounds (pData st) (write_index cfg (cursor st) ic idx)")
    case True
    then show ?thesis by (rule sample_loop_stop [OF lt])
  next
    case False
    then have nf: "\<not> (?yy = 0 \<and> 60 < ?cz)"
      and ib: "in_bounds (pData st) (write_index cfg (cursor st) ic idx)"
      by auto
    from ib "1.prems"(3) have "idx \<noteq> j" by auto
    with "1.prems"(1) have le: "idx + 1 \<le> j" by simp
    have nb: "\<not> in_bounds (pData (store_sample cfg ic idx ?yy st))
                 (write_index cfg (cursor (store_sample cfg ic idx ?yy st)) ic j)"
      using "1.prems"(3) by (simp add: in_bounds_def)
    have "halt_of (sample_loop cfg fr ic (idx + 1) ?cz (store_sample cfg ic idx ?yy st)) \<noteq> None"
      using "1.IH" [OF lt refl refl nf _ le "1.prems"(2) nb] ib by simp
    moreover have "sample_loop cfg fr ic idx cz st =
        sample_loop cfg fr ic (idx + 1) ?cz (store_sample cfg ic idx ?yy st)"
      using False by (intro sample_loop_step [OF lt]) auto
    ultimately show ?thesis by simp
  qed
qed

lemma sample_loop_completes:
  "(\<forall>j. idx \<le> j \<and> j < FRAME_SAMPLES cfg \<longrightarrow>
        getChannel fr (ic + 1) j \<noteq> 0 \<and>
        in_bounds (pData st) (write_index cfg (cursor st) ic j)) \<Longrightarrow>
   halt_of (sample_loop cfg fr ic idx cz st) = None"
proof (induction cfg fr ic idx cz st rule: sample_loop.induct)
  case (1 cfg fr ic idx cz st)
  show ?case
  proof (cases "idx < FRAME_SAMPLES cfg")
    case False
    then show ?thesis
      by (subst sample_loop.simps) (simp add: halt_of_simps)
  next
    case lt: True
    let ?yy = "getChannel fr (ic + 1) idx"
    let ?cz = "if ?yy = 0 then cz + 1 else cz"
    from "1.prems" lt have nz: "?yy \<noteq> 0"
      and ib: "in_bounds (pData st) (write_index cfg (cursor st) ic idx)"
      by auto
    have nf: "\<not> (?yy = 0 \<and> 60 < ?cz)"
      using nz by simp
    have rest: "\<forall>j. idx + 1 \<le> j \<and> j < FRAME_SAMPLES cfg \<longrightarrow>
        getChannel fr (ic + 1) j \<noteq> 0 \<and>
        in_bounds (pData (store_sample cfg ic idx ?yy st))
          (write_index cfg (cursor (store_sample cfg ic idx ?yy st)) ic j)"
      using "1.prems" by (simp add: in_bounds_def)
    have "halt_of (sample_loop cfg fr ic (idx + 1) ?cz (store_sample cfg ic idx ?yy st)) = None"
      using "1.IH" [OF lt refl refl nf _ rest] ib by simp
    moreover have "sample_loop cfg fr ic idx cz st =
        sample_loop cfg fr ic (idx + 1) ?cz (store_sample cfg ic idx ?yy st)"
      using nz ib by (intro sample_loop_step [OF lt]) auto
    ultimately show ?thesis by simp
  qed
qed

lemma chan_loop_out_of_bounds:
  "ic \<le> k \<Longrightarrow> k < nchan cfg \<Longrightarrow> 0 \<le> j \<Longrightarrow> j < FRAME_SAMPLES cfg \<Longrightarrow>
   \<not> in_bounds (pData st) (write_index cfg (cursor st) k j) \<Longrightarrow>
   halt_of (chan_loop cfg fr ic st) \<noteq> None"
proof (induction cfg fr ic st rule: chan_loop.induct)
  case (1 cfg fr ic st)
  have lt: "ic < nchan cfg"
    using "1.prems" by simp
  show ?case
  proof (cases "sample_loop cfg fr ic 0 0 st")
    case (Halt h s)
    with lt show ?thesis
      by (subst chan_loop.simps) (simp add: halt_of_simps)
  next
    case (Continue s)
    have "ic \<noteq> k"
      using sample_loop_out_of_bounds [of 0 j cfg st ic fr 0] "1.prems" Continue
      by (auto simp: halt_of_simps)
    with "1.prems" have le: "ic + 1 \<le> k" by simp
    have u: "unchanged st s"
      using sample_loop_effect [where cfg = cfg and fr = fr and ic = ic and idx = 0 and cz = 0 and st = st]
        Continue by simp
    have nb: "\<not> in_bounds (pData s) (write_index cfg (cursor s) k j)"
      using "1.prems"(5) u by (simp add: in_bounds_def unchanged_def)
    have "halt_of (chan_loop cfg fr (ic + 1) s) \<noteq> None"
      by (rule "1.IH" [OF lt Continue le "1.prems"(2,3,4) nb])
    moreover have "chan_loop cfg fr ic st = chan_loop cfg fr (ic + 1) s"
      using lt Continue by (subst chan_loop.simps) simp
    ultimately show ?thesis by simp
  qed
qed

lemma chan_loop_completes:
  "(\<forall>k j. ic \<le> k \<and> k < nchan cfg \<and> 0 \<le> j \<and> j < FRAME_SAMPLES cfg \<longrightarrow>
          getChannel fr (k + 1) j \<noteq> 0 \<and>
          in_bounds (pData st) (write_index cfg (cursor st) k j)) \<Longrightarrow>
   halt_of (chan_loop cfg fr ic st) = None"
proof (induction cfg fr ic st rule: chan_loop.induct)
  case (1 cfg fr ic st)
  show ?case
  proof (cases "ic < nchan cfg")
    case False
    then show ?thesis
      by (subst chan_loop.simps) (simp add: halt_of_simps)
  next
    case lt: True
    have "halt_of (sample_loop cfg fr ic 0 0 st) = None"
      using "1.prems" lt by (intro sample_loop_completes) auto
    then obtain s where c: "sample_loop cfg fr ic 0 0 st = Continue s"
      by (cases "sample_loop cfg fr ic 0 0 st") (simp_all add: halt_of_simps)
    have u: "unchanged st s"
      using sample_loop_effect [where cfg = cfg and fr = fr and ic = ic and idx = 0 and cz = 0 and st = st]
        c by simp
    have rest: "\<forall>k j. ic + 1 \<le> k \<and> k < nchan cfg \<and> 0 \<le> j \<and> j < FRAME_SAMPLES cfg \<longrightarrow>
          getChannel fr (k + 1) j \<noteq> 0 \<and>
          in_bounds (pData s) (write_index cfg (cursor s) k j)"
      using "1.prems" u by (simp add: in_bounds_def unchanged_def)
    have "halt_of (chan_loop cfg fr (ic + 1) s) = None"
      by (rule "1.IH" [OF lt c rest])
    moreover have "chan_loop cfg fr ic st = chan_loop cfg fr (ic + 1) s"
      using lt c by (subst chan_loop.simps) simp
    ultimately show ?thesis by simp
  qed
qed

lemma is_waveform_filter_Nil [simp]:
  "filter is_waveform [CallParamCallbacks a] = []"
  "filter is_waveform [Printf f xs] = []"
  by simp_all

lemma waveform_event_emit [simp]: "waveform_event cfg (emit es st) = waveform_event cfg st"
  by (rule ext) (simp add: waveform_event_def segment_def)

lemma waveform_event_cong: "pData a = pData b \<Longrightarrow> waveform_event cfg a = waveform_event cfg b"
  by (rule ext) (simp add: waveform_event_def segment_def)

lemma waveform_loop_effect:
  "unchanged st (waveform_loop cfg ic st) \<and> pData (waveform_loop cfg ic st) = pData st \<and>
   dparams (waveform_loop cfg ic st) = dparams st \<and>
   trace (waveform_loop cfg ic st) = trace st @ map (waveform_event cfg st) [ic..nchan cfg - 1]"
proof (induction cfg ic st rule: waveform_loop.induct)
  case (1 cfg ic st)
  show ?case
  proof (cases "ic < nchan cfg")
    case True
    then have up: "[ic..nchan cfg - 1] = ic # [ic + 1..nchan cfg - 1]"
      by (simp add: upto_rec1)
    show ?thesis
      using "1.IH" [OF True] True
      by (subst (1 2 3 4) waveform_loop.simps) (simp add: up unchanged_def)
  next
    case False
    then show ?thesis
      by (subst (1 2 3 4) waveform_loop.simps) simp
  qed
qed

lemma scalar_loop_effect:
  "unchanged st (scalar_loop cfg ic st) \<and> pData (scalar_loop cfg ic st) = pData st \<and>
   (\<exists>es. trace (scalar_loop cfg ic st) = trace st @ es \<and> filter is_waveform es = [])"
proof (induction cfg ic st rule: scalar_loop.induct)
  case (1 cfg ic st)
  show ?case
  proof (cases "ic < nchan cfg")
    case False
    then have "scalar_loop cfg ic st = st"
      by (subst scalar_loop.simps) simp
    then show ?thesis by simp
  next
    case True
    define v where "v = acc_get cfg ic (accum st)"
    define st1 where "st1 = (if verbose cfg \<noteq> 0 \<and> ic < 3
                    then emit [Printf ''setDoubleParam(%d %d %f\<newline>'' [I ic, P P_Scalar, D v]] st
                    else st)"
    define st2 where "st2 = emit [CallParamCallbacks ic] (setDoubleParam ic P_Scalar v st1)"
    have step: "scalar_loop cfg ic st = scalar_loop cfg (ic + 1) st2"
      using True by (subst scalar_loop.simps) (simp add: Let_def v_def st1_def st2_def)
    have ih: "unchanged st2 (scalar_loop cfg (ic + 1) st2) \<and>
              pData (scalar_loop cfg (ic + 1) st2) = pData st2 \<and>
              (\<exists>es. trace (scalar_loop cfg (ic + 1) st2) = trace st2 @ es \<and> filter is_waveform es = [])"
      using "1.IH" [OF True v_def st1_def] by (simp add: st2_def)
    have s2: "unchanged st st2 \<and> pData st2 = pData st \<and>
              (\<exists>es. trace st2 = trace st @ es \<and> filter is_waveform es = [])"
      by (simp add: st2_def st1_def unchanged_def)
    from ih s2 show ?thesis
      unfolding step by (auto simp: unchanged_def)
  qed
qed

lemma flush_effect:
  "unchanged st (flush cfg period st) \<and> pData (flush cfg period st) = pData st \<and>
   (\<exists>es. trace (flush cfg period st) = trace st @ es \<and> filter is_waveform es = [])"
proof (cases "acc_update_timestamp cfg period (accum st)")
  case (Pair due a)
  have "unchanged (st\<lparr>accum := a\<rparr>) (scalar_loop cfg 0 (st\<lparr>accum := a\<rparr>)) \<and>
        pData (scalar_loop cfg 0 (st\<lparr>accum := a\<rparr>)) = pData (st\<lparr>accum := a\<rparr>) \<and>
        (\<exists>es. trace (scalar_loop cfg 0 (st\<lparr>accum := a\<rparr>)) = trace (st\<lparr>accum := a\<rparr>) @ es \<and>
              filter is_waveform es = [])"
    by (rule scalar_loop_effect)
  then show ?thesis
    using Pair by (cases due) (auto simp: flush_def Let_def unchanged_def)
qed

lemma publish_effect:
  "cursor (publish cfg fr st) = (if maxPoints cfg \<le> cursor st then 0 else cursor st) \<and>
   iparams (publish cfg fr st) = iparams st \<and> pTimeBase (publish cfg fr st) = pTimeBase st \<and>
   eslo (publish cfg fr st) = eslo st \<and> eoff (publish cfg fr st) = eoff st \<and>
   pData (publish cfg fr st) = pData st \<and>
   trace (publish cfg fr st) = trace st @
     (if maxPoints cfg \<le> cursor st
      then CallParamCallbacks 0 # map (waveform_event cfg st) [0..nchan cfg - 1] else [])"
proof (cases "maxPoints cfg \<le> cursor st")
  case False
  then show ?thesis by (simp add: publish_def)
next
  case True
  define st2 where
    "st2 = emit [CallParamCallbacks 0]
             (setDoubleParam 0 P_UpdateTime (real_of_int (getStartSampleNumber fr)) st)"
  have ev: "waveform_event cfg st2 = waveform_event cfg st"
    by (rule waveform_event_cong) (simp add: st2_def)
  have p: "publish cfg fr st = (waveform_loop cfg 0 st2)\<lparr>cursor := 0\<rparr>"
    using True by (simp add: publish_def Let_def st2_def)
  show ?thesis
    using waveform_loop_effect [of st2 cfg 0] True
    unfolding p by (simp add: ev unchanged_def) (simp add: st2_def)
qed

lemma onFrame_Continue:
  assumes "onFrame cfg fr st = Continue st'"
  shows "\<exists>st1 es. chan_loop cfg fr 0 st = Continue st1 \<and> iparams st P_ScanFreq \<noteq> 0 \<and>
     cursor st' = (if maxPoints cfg \<le> cursor st + FRAME_SAMPLES cfg then 0
                   else cursor st + FRAME_SAMPLES cfg) \<and>
     iparams st' = iparams st \<and> pTimeBase st' = pTimeBase st \<and> eslo st' = eslo st \<and>
     eoff st' = eoff st \<and> length (pData st') = length (pData st) \<and>
     filter is_waveform es = [] \<and>
     trace st' = trace st @ es @
       (if maxPoints cfg \<le> cursor st + FRAME_SAMPLES cfg
        then CallParamCallbacks 0 # map (waveform_event cfg st') [0..nchan cfg - 1] else [])"
proof -
  from assms obtain st1 where c: "chan_loop cfg fr 0 st = Continue st1"
    by (auto simp: onFrame_def split: outcome.splits)
  have u1: "unchanged st st1" and t1: "trace st1 = trace st"
    using chan_loop_effect [where cfg = cfg and fr = fr and ic = 0 and st = st] c by simp_all
  define st2 where "st2 = st1\<lparr>cursor := cursor st1 + FRAME_SAMPLES cfg\<rparr>"
  from assms c obtain period where
    d: "c_div (NSPS cfg) (iparams st2 P_ScanFreq) = Some period" and
    r: "st' = publish cfg fr (flush cfg period st2)"
    by (auto simp: onFrame_def Let_def st2_def split: option.splits)
  have nz: "iparams st P_ScanFreq \<noteq> 0"
    using d u1 by (auto simp: c_div_def st2_def unchanged_def split: if_splits)
  define st3 where "st3 = flush cfg period st2"
  have r': "st' = publish cfg fr st3"
    by (simp add: r st3_def)
  obtain es where f: "unchanged st2 st3" "trace st3 = trace st2 @ es" "filter is_waveform es = []"
    using flush_effect [of st2 cfg period] by (auto simp: st3_def)
  have f3: "cursor st3 = cursor st + FRAME_SAMPLES cfg" "iparams st3 = iparams st"
    "pTimeBase st3 = pTimeBase st" "eslo st3 = eslo st" "eoff st3 = eoff st"
    "length (pData st3) = length (pData st)" "trace st3 = trace st @ es"
    using f(1,2) u1 t1 by (simp_all add: unchanged_def st2_def)
  have ev: "waveform_event cfg st3 = waveform_event cfg st'"
    by (rule waveform_event_cong) (simp add: r' publish_effect)
  have "chan_loop cfg fr 0 st = Continue st1 \<and> iparams st P_ScanFreq \<noteq> 0 \<and>
     cursor st' = (if maxPoints cfg \<le> cursor st + FRAME_SAMPLES cfg then 0
                   else cursor st + FRAME_SAMPLES cfg) \<and>
     iparams st' = iparams st \<and> pTimeBase st' = pTimeBase st \<and> eslo st' = eslo st \<and>
     eoff st' = eoff st \<and> length (pData st') = length (pData st) \<and>
     filter is_waveform es = [] \<and>
     trace st' = trace st @ es @
       (if maxPoints cfg \<le> cursor st + FRAME_SAMPLES cfg
        then CallParamCallbacks 0 # map (waveform_event cfg st') [0..nchan cfg - 1] else [])"
    using c nz f(3) f3 ev [symmetric] by (simp add: r' publish_effect)
  then show ?thesis by blast
qed

lemma onFrame_Halt:
  assumes "onFrame cfg fr st = Halt h s"
  shows "pTimeBase s = pTimeBase st \<and>
     (h = Exit 1 \<and> trace s = trace st @ [zeros_detected fr] \<or>
      h = OutOfBounds \<and> trace s = trace st \<or>
      h = DivisionByZero \<and> trace s = trace st \<and> iparams st P_ScanFreq = 0)"
proof (cases "chan_loop cfg fr 0 st")
  case (Halt h' s')
  then show ?thesis
    using assms chan_loop_effect [where cfg = cfg and fr = fr and ic = 0 and st = st]
    by (auto simp: onFrame_def unchanged_def)
next
  case (Continue st1)
  then show ?thesis
    using assms chan_loop_effect [where cfg = cfg and fr = fr and ic = 0 and st = st]
    by (auto simp: onFrame_def unchanged_def Let_def c_div_def split: option.splits if_splits)
qed

section \<open>Streaming, calibration and the time base\<close>

lemma streamData_append:
  "streamData cfg (xs @ ys) st =
     (case streamData cfg xs st of Halt h s \<Rightarrow> Halt h s | Continue s \<Rightarrow> streamData cfg ys s)"
  by (induction xs arbitrary: st) (auto split: outcome.splits)

lemma streamData_single: "onFrame cfg fr st = Continue s \<Longrightarrow> streamData cfg [fr] st = Continue s"
  by simp

lemma streamData_cursor:
  assumes "1 \<le> maxPoints cfg" "0 \<le> FRAME_SAMPLES cfg"
  shows "streamData cfg frs st = Continue s \<Longrightarrow> 0 \<le> cursor st \<Longrightarrow> cursor st < maxPoints cfg
         \<Longrightarrow> 0 \<le> cursor s \<and> cursor s < maxPoints cfg"
proof (induction frs arbitrary: st)
  case Nil
  then show ?case by simp
next
  case (Cons fr frs)
  from Cons.prems(1) obtain st' where o: "onFrame cfg fr st = Continue st'"
    and r: "streamData cfg frs st' = Continue s"
    by (auto split: outcome.splits)
  from onFrame_Continue [OF o] have
    "cursor st' = (if maxPoints cfg \<le> cursor st + FRAME_SAMPLES cfg then 0
                   else cursor st + FRAME_SAMPLES cfg)" by blast
  with assms Cons.prems have "0 \<le> cursor st' \<and> cursor st' < maxPoints cfg"
    by (auto split: if_splits)
  with Cons.IH [OF r] show ?case by simp
qed

lemma streamData_pTimeBase: "pTimeBase (state_of (streamData cfg frs st)) = pTimeBase st"
proof (induction frs arbitrary: st)
  case Nil
  then show ?case by (simp add: state_of_simps)
next
  case (Cons fr frs)
  show ?case
  proof (cases "onFrame cfg fr st")
    case (Continue s)
    with onFrame_Continue [OF Continue] Cons.IH [of s] show ?thesis by (auto simp: state_of_simps)
  next
    case (Halt h s)
    with onFrame_Halt [OF Halt] show ?thesis by (simp add: state_of_simps)
  qed
qed

lemma onFrame_pTimeBase: "pTimeBase (state_of (onFrame cfg fr st)) = pTimeBase st"
  using streamData_pTimeBase [of cfg "[fr]" st]
  by (simp split: outcome.splits add: state_of_simps)

lemma cal_loop_effect:
  "cursor (cal_loop cfg acq ii st) = cursor st \<and> pData (cal_loop cfg acq ii st) = pData st \<and>
   pTimeBase (cal_loop cfg acq ii st) = pTimeBase st \<and>
   iparams (cal_loop cfg acq ii st) = iparams st \<and>
   (\<forall>ic. eslo (cal_loop cfg acq ii st) ic =
      (if ii \<le> ic \<and> ic < nchan cfg
       then (vmax (getChannelRanges acq (ic + 1)) - vmin (getChannelRanges acq (ic + 1))) /
              real_of_int (X2 - X1)
       else eslo st ic)) \<and>
   (\<forall>ic. eoff (cal_loop cfg acq ii st) ic =
      (if ii \<le> ic \<and> ic < nchan cfg
       then vmin (getChannelRanges acq (ic + 1)) - real_of_int X1 *
              ((vmax (getChannelRanges acq (ic + 1)) - vmin (getChannelRanges acq (ic + 1))) /
                 real_of_int (X2 - X1))
       else eoff st ic))"
proof (induction cfg acq ii st rule: cal_loop.induct)
  case (1 cfg acq ii st)
  show ?case
  proof (cases "ii < nchan cfg")
    case False
    then have "cal_loop cfg acq ii st = st"
      by (subst cal_loop.simps) simp
    with False show ?thesis by auto
  next
    case True
    define Y1 where "Y1 = vmin (getChannelRanges acq (ii + 1))"
    define Y2 where "Y2 = vmax (getChannelRanges acq (ii + 1))"
    define ESLO where "ESLO = (Y2 - Y1) / real_of_int (X2 - X1)"
    define EOFF where "EOFF = Y1 - real_of_int X1 * ESLO"
    define st1 where "st1 = (if verbose cfg \<noteq> 0
                    then emit [Printf ''[%2d] Y1:%.2f Y2:%.2f %x ESLO:%.5g EOFF:%.5f\<newline>''
                                 [I ii, D Y1, D Y2, I (X2 - X1), D ESLO, D EOFF]] st
                    else st)"
    define st2 where "st2 = st1\<lparr>eslo := (eslo st1)(ii := ESLO), eoff := (eoff st1)(ii := EOFF)\<rparr>"
    have step: "cal_loop cfg acq ii st = cal_loop cfg acq (ii + 1) st2"
      using True
      by (subst cal_loop.simps) (simp add: Let_def Y1_def Y2_def ESLO_def EOFF_def st1_def st2_def)
    have s2: "cursor st2 = cursor st" "pData st2 = pData st" "pTimeBase st2 = pTimeBase st"
      "iparams st2 = iparams st" "eslo st2 = (eslo st)(ii := ESLO)" "eoff st2 = (eoff st)(ii := EOFF)"
      by (simp_all add: st2_def st1_def)
    note ih = "1.IH" [OF True Y1_def Y2_def ESLO_def EOFF_def st1_def, folded st2_def]
    show ?thesis
      unfolding step using ih True
      by (auto simp: s2 ESLO_def EOFF_def Y1_def Y2_def)
  qed
qed

lemma task_cases:
  "task cfg acq st =
     (case getState acq of
        (rc, state) \<Rightarrow>
          if rc \<noteq> STATUS_OK
          then Halt (Exit 1)
                 (emit [Fprintf_stderr ''ERROR: failed to get state\<newline>'' []] (compute_cal cfg acq st))
          else streamData cfg (frames acq)
                 (emit ((if state \<noteq> ST_STOP then [not_stopped_message state] else arm_commands) @
                        [AddFrameHandler, StreamData])
                    (compute_cal cfg acq st)))"
  by (simp add: task_def Acq164Device_setup_def emit_emit split: prod.splits)

lemma task_pTimeBase: "pTimeBase (state_of (task cfg acq st)) = pTimeBase st"
  by (simp add: state_of_simps task_cases streamData_pTimeBase compute_cal_def cal_loop_effect split: prod.splits)

lemma timebase_loop_effect:
  "0 \<le> i \<Longrightarrow>
   length (timebase_loop m i tb) = length tb \<and>
   (\<forall>j < length tb. timebase_loop m i tb ! j =
      (if i \<le> int j \<and> int j < m then timebase_value m (int j) else tb ! j))"
proof (induction m i tb rule: timebase_loop.induct)
  case (1 m i tb)
  show ?case
  proof (cases "i < m")
    case False
    then have "timebase_loop m i tb = tb"
      by (subst timebase_loop.simps) simp
    with False show ?thesis by auto
  next
    case True
    have step: "timebase_loop m i tb = timebase_loop m (i + 1) (tb[nat i := timebase_value m i])"
      using True by (subst timebase_loop.simps) simp
    from "1.IH" [OF True] "1.prems"
    have ih: "length (timebase_loop m (i + 1) (tb[nat i := timebase_value m i])) = length tb"
      "\<forall>j < length tb. timebase_loop m (i + 1) (tb[nat i := timebase_value m i]) ! j =
         (if i + 1 \<le> int j \<and> int j < m then timebase_value m (int j)
          else tb[nat i := timebase_value m i] ! j)"
      by simp_all
    show ?thesis
      unfolding step using ih True "1.prems"
      by (auto simp: nth_list_update)
  qed
qed

lemma timebase_value_closed:
  "0 \<le> i \<Longrightarrow> i < m \<Longrightarrow>
   timebase_value m i = (if m = 1 then None else Some (real_of_int i / real_of_int (m - 1) * 10))"
  by (simp add: timebase_value_def fp_div_def NUM_DIVISIONS_def)

lemma report_write_not_warning:
  "report_write s f c p a \<noteq> update_time_warning v"
  "update_time_warning v \<noteq> report_write s f c p a"
  "update_time_warning v \<noteq> CallParamCallbacks n"
  "update_time_warning v \<noteq> EpicsEventSignal"
  by (auto simp: report_write_def update_time_warning_def)

section \<open>Stores and the bounds of the waveform array\<close>

lemma in_bounds_segment:
  assumes "0 \<le> k" and "k < nchan cfg" and "0 \<le> j" and "0 \<le> cur"
    and "cur + j < maxPoints cfg" and "length xs = nat (nchan cfg * maxPoints cfg)"
  shows "in_bounds xs (write_index cfg cur k j)"
proof -
  have m: "0 < maxPoints cfg"
    using assms by simp
  have "k * maxPoints cfg \<le> (nchan cfg - 1) * maxPoints cfg"
    using assms(2) m by (intro mult_right_mono) simp_all
  then have hi: "k * maxPoints cfg + cur + j < nchan cfg * maxPoints cfg"
    using assms(5) by (simp add: algebra_simps)
  have "0 \<le> k * maxPoints cfg"
    using assms(1) m by simp
  then have lo: "0 \<le> k * maxPoints cfg + cur + j"
    using assms(3,4) by simp
  from hi lo show ?thesis
    by (simp add: in_bounds_def write_index_def assms(6))
qed

lemma past_the_end:
  assumes "1 \<le> nchan cfg" and "1 \<le> maxPoints cfg" and "maxPoints cfg < cur + FRAME_SAMPLES cfg"
    and "length xs = nat (nchan cfg * maxPoints cfg)"
  shows "\<not> in_bounds xs (write_index cfg cur (nchan cfg - 1) (FRAME_SAMPLES cfg - 1))"
proof -
  have "0 \<le> nchan cfg * maxPoints cfg"
    using assms(1,2) by simp
  moreover have "nchan cfg * maxPoints cfg \<le>
      (nchan cfg - 1) * maxPoints cfg + cur + (FRAME_SAMPLES cfg - 1)"
    using assms(3) by (simp add: algebra_simps)
  ultimately show ?thesis
    by (simp add: in_bounds_def write_index_def assms(4))
qed

lemma onFrame_overrun:
  assumes "1 \<le> nchan cfg" and "1 \<le> maxPoints cfg" and "1 \<le> FRAME_SAMPLES cfg"
    and "maxPoints cfg < cursor st + FRAME_SAMPLES cfg"
    and "length (pData st) = nat (nchan cfg * maxPoints cfg)"
  shows "halt_of (onFrame cfg fr st) = Some (Exit 1) \<or> halt_of (onFrame cfg fr st) = Some OutOfBounds"
proof -
  have "halt_of (chan_loop cfg fr 0 st) \<noteq> None"
    using assms past_the_end [OF assms(1,2,4,5)]
    by (intro chan_loop_out_of_bounds [where k = "nchan cfg - 1" and j = "FRAME_SAMPLES cfg - 1"])
       simp_all
  then obtain h s where c: "chan_loop cfg fr 0 st = Halt h s"
    by (cases "chan_loop cfg fr 0 st") (simp_all add: halt_of_simps)
  then have "h = Exit 1 \<or> h = OutOfBounds"
    using chan_loop_effect [where cfg = cfg and fr = fr and ic = 0 and st = st] by auto
  with c show ?thesis
    by (auto simp: onFrame_def halt_of_simps)
qed

lemma onFrame_completes:
  assumes "0 \<le> cursor st" and "cursor st + FRAME_SAMPLES cfg \<le> maxPoints cfg"
    and "length (pData st) = nat (nchan cfg * maxPoints cfg)"
    and "iparams st P_ScanFreq \<noteq> 0"
    and "\<forall>ch j. getChannel fr ch j \<noteq> 0"
  shows "halt_of (onFrame cfg fr st) = None"
proof -
  have "halt_of (chan_loop cfg fr 0 st) = None"
  proof (rule chan_loop_completes, intro allI impI conjI)
    fix k j
    assume a: "0 \<le> k \<and> k < nchan cfg \<and> 0 \<le> j \<and> j < FRAME_SAMPLES cfg"
    show "getChannel fr (k + 1) j \<noteq> 0"
      using assms(5) by simp
    show "in_bounds (pData st) (write_index cfg (cursor st) k j)"
      using a assms(1,2,3) by (intro in_bounds_segment) simp_all
  qed
  then obtain s where c: "chan_loop cfg fr 0 st = Continue s"
    by (cases "chan_loop cfg fr 0 st") (simp_all add: halt_of_simps)
  have "iparams s = iparams st"
    using chan_loop_effect [where cfg = cfg and fr = fr and ic = 0 and st = st] c
    by (simp add: unchanged_def)
  with c assms(4) show ?thesis
    by (simp add: onFrame_def Let_def c_div_def halt_of_simps)
qed

lemma stream_fills:
  assumes "1 \<le> FRAME_SAMPLES cfg" and "cursor st0 = 0"
    and "length (pData st0) = nat (nchan cfg * maxPoints cfg)"
    and "iparams st0 P_ScanFreq \<noteq> 0" and "\<forall>ch j. getChannel fr ch j \<noteq> 0"
  shows "int n * FRAME_SAMPLES cfg < maxPoints cfg \<Longrightarrow>
         \<exists>st. streamData cfg (replicate n fr) st0 = Continue st \<and>
              cursor st = int n * FRAME_SAMPLES cfg \<and>
              length (pData st) = length (pData st0) \<and> iparams st = iparams st0"
proof (induction n)
  case 0
  then show ?case using assms(2) by simp
next
  case (Suc n)
  have less: "int n * FRAME_SAMPLES cfg < maxPoints cfg"
    using Suc.prems assms(1) by (simp add: algebra_simps)
  from Suc.IH [OF less] obtain st where
    r: "streamData cfg (replicate n fr) st0 = Continue st" and
    c: "cursor st = int n * FRAME_SAMPLES cfg" and
    l: "length (pData st) = length (pData st0)" and p: "iparams st = iparams st0"
    by blast
  have nx: "cursor st + FRAME_SAMPLES cfg < maxPoints cfg"
    using Suc.prems c by (simp add: algebra_simps)
  have c0: "0 \<le> cursor st"
    using c assms(1) by simp
  have "halt_of (onFrame cfg fr st) = None"
    using c0 nx l p assms(3,4,5) by (intro onFrame_completes) simp_all
  then obtain st' where o: "onFrame cfg fr st = Continue st'"
    by (cases "onFrame cfg fr st") (simp_all add: halt_of_simps)
  from onFrame_Continue [OF o] nx have
    "cursor st' = cursor st + FRAME_SAMPLES cfg" "iparams st' = iparams st"
    "length (pData st') = length (pData st)"
    by auto
  moreover have "streamData cfg (replicate n fr @ [fr]) st0 = Continue st'"
    using r o by (simp add: streamData_append)
  then have "streamData cfg (replicate (Suc n) fr) st0 = Continue st'"
    by (simp only: replicate_append_same replicate_Suc)
  ultimately show ?case
    using c l p by (simp add: algebra_simps)
qed

lemma stream_cursor_multiple:
  assumes "FRAME_SAMPLES cfg dvd maxPoints cfg" and "1 \<le> FRAME_SAMPLES cfg"
  shows "streamData cfg frs st = Continue s \<Longrightarrow> FRAME_SAMPLES cfg dvd cursor st \<Longrightarrow>
         0 \<le> cursor st \<Longrightarrow> FRAME_SAMPLES cfg dvd cursor s \<and> 0 \<le> cursor s"
proof (induction frs arbitrary: st)
  case Nil
  then show ?case by simp
next
  case (Cons fr frs)
  from Cons.prems(1) obtain st' where o: "onFrame cfg fr st = Continue st'"
    and r: "streamData cfg frs st' = Continue s"
    by (auto split: outcome.splits)
  from onFrame_Continue [OF o] have
    "cursor st' = (if maxPoints cfg \<le> cursor st + FRAME_SAMPLES cfg then 0
                   else cursor st + FRAME_SAMPLES cfg)" by blast
  with Cons.prems assms have "FRAME_SAMPLES cfg dvd cursor st' \<and> 0 \<le> cursor st'"
    by (auto split: if_splits)
  with Cons.IH [OF r] show ?case by simp
qed

lemma multiple_fits:
  assumes "(f::int) dvd c" and "f dvd m" and "c < m" and "1 \<le> f"
  shows "c + f \<le> m"
proof -
  from assms(1,2) obtain a b where c: "c = f * a" and m: "m = f * b"
    by (auto simp: dvd_def)
  from assms(3,4) have "a < b"
    unfolding c m by (simp add: mult_less_cancel_left)
  then have "a + 1 \<le> b" by simp
  then have "f * (a + 1) \<le> f * b"
    using assms(4) by (intro mult_left_mono) simp_all
  then show ?thesis
    unfolding c m by (simp add: algebra_simps)
qed

section \<open>Stuck-at-zero detection\<close>

text \<open>
  C1. The claim: the per-channel counter is incremented on a zero sample and reset on a
  non-zero one, so 61 consecutive zeros raise the fault while 60 zeros, one non-zero sample
  and further zeros do not. The handler names its counter \<^verbatim>\<open>consecutive_zeros\<close> but never
  resets it: on the frame with 60 zeros, a 1 and zeros again, the handler counts the 61st
  zero at sample 61, prints the diagnostic and exits with status 1.
\<close>

theorem C1_zero_counter_never_reset:
  "getChannel frame_60_zeros_1_zeros 1 60 \<noteq> 0 \<and>
   halt_of (onFrame (example_cfg 1 64 64) frame_60_zeros_1_zeros (example_dev 1 64)) = Some (Exit 1) \<and>
   trace (state_of (onFrame (example_cfg 1 64 64) frame_60_zeros_1_zeros (example_dev 1 64))) =
     [Printf ''%s zeros detected at %lld\<newline>'' [S ''onFrame'', I 4096]]"
  by (simp add: frame_60_zeros_1_zeros_def run_defs)

section \<open>A card that is not stopped\<close>

text \<open>
  C2, as amended. When the card reports a state other than \<^verbatim>\<open>ST_STOP\<close>, \<^verbatim>\<open>setup\<close> writes
  its message to \<^verbatim>\<open>stderr\<close> and sends no command to the card; the task then registers the
  frame handler and enters the streaming loop all the same, which hands every frame the
  transport yields to the frame handler.
\<close>

theorem C2_not_idle_streams_anyway:
  assumes "getState acq = (STATUS_OK, state)" and "state \<noteq> ST_STOP"
  shows "task cfg acq st =
           streamData cfg (frames acq)
             (emit [not_stopped_message state, AddFrameHandler, StreamData] (compute_cal cfg acq st))"
  using assms by (simp add: task_cases)

text \<open>
  C2 on a card in state \<^verbatim>\<open>ST_ARM\<close> whose transport yields one frame: the task is that
  frame handled after the message and the two streamer calls.
\<close>

theorem C2_not_idle_streams_anyway_witness:
  "getState (example_card ST_ARM [frame_ones]) = (STATUS_OK, ST_ARM) \<and> ST_ARM \<noteq> ST_STOP \<and>
   task (example_cfg 1 4 2) (example_card ST_ARM [frame_ones]) (example_dev 1 4) =
     onFrame (example_cfg 1 4 2) frame_ones
       (emit [not_stopped_message ST_ARM, AddFrameHandler, StreamData] (example_dev 1 4))"
proof -
  have g: "getState (example_card ST_ARM [frame_ones]) = (STATUS_OK, ST_ARM)"
    by (simp add: example_card_def)
  have n: "ST_ARM \<noteq> ST_STOP"
    by simp
  have c: "compute_cal (example_cfg 1 4 2) (example_card ST_ARM [frame_ones]) (example_dev 1 4) =
           example_dev 1 4"
    by (simp add: cal_loop.simps example_defs)
  have f: "frames (example_card ST_ARM [frame_ones]) = [frame_ones]"
    by (simp add: example_card_def)
  have s: "streamData cfg [fr] s0 = onFrame cfg fr s0" for cfg :: "((int \<Rightarrow> real) \<times> int) config" and fr s0
    by (simp split: outcome.splits)
  from C2_not_idle_streams_anyway [OF g n, of "example_cfg 1 4 2" "example_dev 1 4"] g n
  show ?thesis
    by (simp only: c f s simp_thms)
qed

text \<open>
  C2 as claimed (no streaming starts, no frame reaches the frame handler) fails on a card
  in state \<^verbatim>\<open>ST_RUN\<close> that yields one frame of two samples: the task does not stop, the
  streaming loop is entered, and the frame is handled: the cursor stands at 2 and the two
  calibrated samples are in the waveform array.
\<close>

theorem C2_not_idle_streams_counterexample:
  "getState (example_card ST_RUN [frame_ones]) = (STATUS_OK, ST_RUN) \<and>
   halt_of (task (example_cfg 1 4 2) (example_card ST_RUN [frame_ones]) (example_dev 1 4)) = None \<and>
   trace (state_of (task (example_cfg 1 4 2) (example_card ST_RUN [frame_ones]) (example_dev 1 4))) =
     [not_stopped_message ST_RUN, AddFrameHandler, StreamData] \<and>
   cursor (state_of (task (example_cfg 1 4 2) (example_card ST_RUN [frame_ones]) (example_dev 1 4))) = 2 \<and>
   pData (example_dev 1 4) = [0, 0, 0, 0] \<and>
   pData (state_of (task (example_cfg 1 4 2) (example_card ST_RUN [frame_ones]) (example_dev 1 4))) =
     [5 / 8388608, 5 / 8388608, 0, 0]"
  by (simp add: task_def Acq164Device_setup_def run_defs eval_nat_numeral)

section \<open>The stuck-at-zero fault ends the stream\<close>

text \<open>
  C3, as amended. When the frame handler raises the fault on a frame (it exits with
  status 1), the streaming loop ends there with that state, whatever frames \<open>rest\<close> the
  transport would still yield, and the one diagnostic added to the trace is the
  \<^verbatim>\<open>printf\<close> of the function name and the frame's start-sample number. The channel
  index is not among its arguments.
\<close>

theorem C3_fault_halts_stream:
  assumes "streamData cfg pre st = Continue s1" and "onFrame cfg fr s1 = Halt (Exit 1) s2"
  shows "streamData cfg (pre @ fr # rest) st = Halt (Exit 1) s2 \<and>
         trace s2 = trace s1 @
           [Printf ''%s zeros detected at %lld\<newline>'' [S ''onFrame'', I (getStartSampleNumber fr)]]"
  using assms onFrame_Halt [OF assms(2)]
  by (simp add: streamData_append zeros_detected_def)

text \<open>
  C3 as amended, on three frames of 64 samples: the second has channel 1 all zero, the
  handler exits on it and the third frame is not handled.
\<close>

theorem C3_fault_halts_stream_witness:
  "streamData (example_cfg 1 128 64) [frame_ones] (example_dev 1 128) =
     Continue (state_of (onFrame (example_cfg 1 128 64) frame_ones (example_dev 1 128))) \<and>
   halt_of (onFrame (example_cfg 1 128 64) frame_zeros_ch1
     (state_of (onFrame (example_cfg 1 128 64) frame_ones (example_dev 1 128)))) = Some (Exit 1) \<and>
   streamData (example_cfg 1 128 64) [frame_ones, frame_zeros_ch1, frame_ones] (example_dev 1 128) =
     onFrame (example_cfg 1 128 64) frame_zeros_ch1
       (state_of (onFrame (example_cfg 1 128 64) frame_ones (example_dev 1 128))) \<and>
   trace (state_of (onFrame (example_cfg 1 128 64) frame_zeros_ch1
       (state_of (onFrame (example_cfg 1 128 64) frame_ones (example_dev 1 128))))) =
     [Printf ''%s zeros detected at %lld\<newline>'' [S ''onFrame'', I 4096]]"
proof -
  let ?cfg = "example_cfg 1 128 64"
  let ?s1 = "state_of (onFrame ?cfg frame_ones (example_dev 1 128))"
  let ?s2 = "state_of (onFrame ?cfg frame_zeros_ch1 ?s1)"
  have n1: "halt_of (onFrame ?cfg frame_ones (example_dev 1 128)) = None"
    by (simp add: run_defs)
  have h1: "streamData ?cfg [frame_ones] (example_dev 1 128) = Continue ?s1"
    by (rule streamData_single) (rule Continue_state_of [OF n1])
  have t1: "trace ?s1 = []"
    by (simp add: run_defs)
  have n2: "halt_of (onFrame ?cfg frame_zeros_ch1 ?s1) = Some (Exit 1)"
    by (simp add: frame_zeros_ch1_def run_defs)
  have h2: "onFrame ?cfg frame_zeros_ch1 ?s1 = Halt (Exit 1) ?s2"
    by (rule Halt_state_of) (rule n2)
  have g: "getStartSampleNumber frame_zeros_ch1 = 4096"
    by (simp add: frame_zeros_ch1_def frame_of_def)
  have "streamData ?cfg ([frame_ones] @ frame_zeros_ch1 # [frame_ones]) (example_dev 1 128) = Halt (Exit 1) ?s2 \<and>
        trace ?s2 = trace ?s1 @ [Printf ''%s zeros detected at %lld\<newline>'' [S ''onFrame'', I (getStartSampleNumber frame_zeros_ch1)]]"
    by (rule C3_fault_halts_stream [OF h1 h2])
  then have "streamData ?cfg [frame_ones, frame_zeros_ch1, frame_ones] (example_dev 1 128) = Halt (Exit 1) ?s2 \<and>
        trace ?s2 = [Printf ''%s zeros detected at %lld\<newline>'' [S ''onFrame'', I 4096]]"
    unfolding t1 g by simp
  with h1 n2 h2 show ?thesis
    by metis
qed

text \<open>
  C3 as claimed (the diagnostic includes the faulting channel index) fails: with two
  channels, a frame whose channel index 0 is all zero and a frame whose channel index 1 is
  all zero (the loop of channel index 0 completes, the one of channel index 1 exits), both
  with start sample 4096, give the same diagnostic.
\<close>

theorem C3_diagnostic_without_channel_counterexample:
  "halt_of (sample_loop (example_cfg 2 64 64) frame_zeros_ch1 0 0 0 (example_dev 2 64)) = Some (Exit 1) \<and>
   trace (state_of (onFrame (example_cfg 2 64 64) frame_zeros_ch1 (example_dev 2 64))) =
     [Printf ''%s zeros detected at %lld\<newline>'' [S ''onFrame'', I 4096]] \<and>
   halt_of (sample_loop (example_cfg 2 64 64) frame_zeros_ch2 0 0 0 (example_dev 2 64)) = None \<and>
   halt_of (sample_loop (example_cfg 2 64 64) frame_zeros_ch2 1 0 0
     (state_of (sample_loop (example_cfg 2 64 64) frame_zeros_ch2 0 0 0 (example_dev 2 64)))) = Some (Exit 1) \<and>
   trace (state_of (onFrame (example_cfg 2 64 64) frame_zeros_ch2 (example_dev 2 64))) =
     [Printf ''%s zeros detected at %lld\<newline>'' [S ''onFrame'', I 4096]]"
  by (simp add: frame_zeros_ch1_def frame_zeros_ch2_def run_defs)

section \<open>The write cursor and the waveform callbacks\<close>

text \<open>
  C4. Let the cursor start at 0 and \<open>st\<close> be the state after any sequence \<open>frs\<close> of
  processed frames, and let the next frame \<open>fr\<close> be processed too, giving \<open>st'\<close>. Then
  \<open>0 \<le> cursor < maxPoints\<close> holds after it, and the array callbacks issued while the
  frame was handled are one per channel, in channel order, each with the channel's segment
  of \<open>maxPoints\<close> values, exactly when the cursor advanced by \<open>FRAME_SAMPLES\<close> reaches or
  exceeds \<open>maxPoints\<close>, in which case the cursor is 0 afterwards; otherwise there is none
  and the cursor has advanced by \<open>FRAME_SAMPLES\<close>. The constructor makes \<open>maxPoints\<close>
  at least 1, and \<open>FRAME_SAMPLES\<close> is a number of samples.
\<close>

theorem C4_cursor_invariant_and_publish:
  assumes "1 \<le> maxPoints cfg" and "0 \<le> FRAME_SAMPLES cfg" and "cursor st0 = 0"
    and "streamData cfg frs st0 = Continue st" and "onFrame cfg fr st = Continue st'"
  shows "0 \<le> cursor st' \<and> cursor st' < maxPoints cfg \<and>
         cursor st' = (if maxPoints cfg \<le> cursor st + FRAME_SAMPLES cfg then 0
                       else cursor st + FRAME_SAMPLES cfg) \<and>
         filter is_waveform (new_events st st') =
           (if maxPoints cfg \<le> cursor st + FRAME_SAMPLES cfg
            then map (waveform_event cfg st') [0..nchan cfg - 1] else [])"
proof -
  have inv: "0 \<le> cursor st \<and> cursor st < maxPoints cfg"
    using streamData_cursor [OF assms(1,2,4)] assms(1,3) by simp
  from onFrame_Continue [OF assms(5)] obtain es where
    c: "cursor st' = (if maxPoints cfg \<le> cursor st + FRAME_SAMPLES cfg then 0
                      else cursor st + FRAME_SAMPLES cfg)" and
    e: "filter is_waveform es = []" and
    t: "trace st' = trace st @ es @
       (if maxPoints cfg \<le> cursor st + FRAME_SAMPLES cfg
        then CallParamCallbacks 0 # map (waveform_event cfg st') [0..nchan cfg - 1] else [])"
    by blast
  have w: "filter is_waveform (map (waveform_event cfg st') xs) = map (waveform_event cfg st') xs" for xs
    by (induction xs) (simp_all add: waveform_event_def)
  have "filter is_waveform (new_events st st') =
           (if maxPoints cfg \<le> cursor st + FRAME_SAMPLES cfg
            then map (waveform_event cfg st') [0..nchan cfg - 1] else [])"
    by (simp add: new_events_def t e w)
  with inv c assms(1,2) show ?thesis by (auto split: if_splits)
qed

text \<open>
  C4 on two frames of 2 samples for one channel of 4 points: the cursor is 2 after the
  first frame, and 0 after the second, which issues the one array callback of channel 0.
\<close>

theorem C4_cursor_invariant_and_publish_witness:
  "1 \<le> maxPoints (example_cfg 1 4 2) \<and> 0 \<le> FRAME_SAMPLES (example_cfg 1 4 2) \<and>
   cursor (example_dev 1 4) = 0 \<and>
   streamData (example_cfg 1 4 2) [frame_ones] (example_dev 1 4) =
     Continue (state_of (onFrame (example_cfg 1 4 2) frame_ones (example_dev 1 4))) \<and>
   halt_of (onFrame (example_cfg 1 4 2) frame_ones
     (state_of (onFrame (example_cfg 1 4 2) frame_ones (example_dev 1 4)))) = None \<and>
   cursor (state_of (onFrame (example_cfg 1 4 2) frame_ones (example_dev 1 4))) = 2 \<and>
   cursor (state_of (onFrame (example_cfg 1 4 2) frame_ones
     (state_of (onFrame (example_cfg 1 4 2) frame_ones (example_dev 1 4))))) = 0 \<and>
   map callback_addr (filter is_waveform
     (new_events (state_of (onFrame (example_cfg 1 4 2) frame_ones (example_dev 1 4)))
        (state_of (onFrame (example_cfg 1 4 2) frame_ones
           (state_of (onFrame (example_cfg 1 4 2) frame_ones (example_dev 1 4))))))) = [0]"
proof -
  let ?cfg = "example_cfg 1 4 2"
  let ?st = "state_of (onFrame ?cfg frame_ones (example_dev 1 4))"
  let ?st' = "state_of (onFrame ?cfg frame_ones ?st)"
  have h1: "1 \<le> maxPoints ?cfg" and h2: "0 \<le> FRAME_SAMPLES ?cfg"
    by (simp_all add: example_cfg_def)
  have h3: "cursor (example_dev 1 4) = 0"
    by (simp add: cal_loop.simps example_defs)
  have n1: "halt_of (onFrame ?cfg frame_ones (example_dev 1 4)) = None"
    by (simp add: run_defs)
  have h4: "streamData ?cfg [frame_ones] (example_dev 1 4) = Continue ?st"
    by (rule streamData_single) (rule Continue_state_of [OF n1])
  have n2: "halt_of (onFrame ?cfg frame_ones ?st) = None"
    by (simp add: run_defs)
  have h5: "onFrame ?cfg frame_ones ?st = Continue ?st'"
    by (rule Continue_state_of) (rule n2)
  have c2: "cursor ?st = 2"
    by (simp add: run_defs)
  have m: "maxPoints ?cfg = 4" "FRAME_SAMPLES ?cfg = 2" "nchan ?cfg = 1"
    by (simp_all add: example_cfg_def)
  from C4_cursor_invariant_and_publish [OF h1 h2 h3 h4 h5]
  have "cursor ?st' = 0 \<and>
        map callback_addr (filter is_waveform (new_events ?st ?st')) = [0]"
    by (simp add: c2 m waveform_event_def)
  with h1 h2 h3 h4 n2 c2 show ?thesis
    by blast
qed

section \<open>Calibration\<close>

text \<open>
  C5. For every channel \<open>ic\<close>, \<^verbatim>\<open>compute_cal\<close> leaves
  \<open>eslo = (Ymax - Ymin) / (X2 - X1)\<close> and \<open>eoff = Ymin - X1 * eslo\<close> for the range the card
  reports for that channel and \<open>X1 = -2^23\<close>, \<open>X2 = 2^23\<close>; the mapping the frame handler
  applies, \<open>eslo * x + eoff\<close>, takes \<open>X1\<close> to \<open>Ymin\<close> and \<open>X2\<close> to \<open>Ymax\<close>, and for the
  range from -5 to 5 it takes the raw code 0 to 0. Doubles are real numbers here, so the
  equalities are exact.
\<close>

theorem C5_calibration_linear:
  assumes "0 \<le> ic" and "ic < nchan cfg"
  shows
    "X1 = - (2 ^ 23) \<and> X2 = 2 ^ 23 \<and>
     eslo (compute_cal cfg acq st) ic =
       (vmax (getChannelRanges acq (ic + 1)) - vmin (getChannelRanges acq (ic + 1))) /
         real_of_int (X2 - X1) \<and>
     eoff (compute_cal cfg acq st) ic =
       vmin (getChannelRanges acq (ic + 1)) - real_of_int X1 * eslo (compute_cal cfg acq st) ic \<and>
     (\<forall>x. calibrate (compute_cal cfg acq st) ic x =
        eslo (compute_cal cfg acq st) ic * real_of_int x + eoff (compute_cal cfg acq st) ic) \<and>
     calibrate (compute_cal cfg acq st) ic X1 = vmin (getChannelRanges acq (ic + 1)) \<and>
     calibrate (compute_cal cfg acq st) ic X2 = vmax (getChannelRanges acq (ic + 1)) \<and>
     (vmin (getChannelRanges acq (ic + 1)) = - 5 \<and> vmax (getChannelRanges acq (ic + 1)) = 5
        \<longrightarrow> calibrate (compute_cal cfg acq st) ic 0 = 0)"
proof -
  define st0 where
    "st0 = (if verbose cfg \<noteq> 0 then emit [Printf ''nchan:%d\<newline>'' [I (nchan cfg)]] st else st)"
  have cc: "compute_cal cfg acq st = cal_loop cfg acq 0 st0"
    by (simp add: compute_cal_def st0_def)
  have e: "eslo (cal_loop cfg acq 0 st0) ic =
       (vmax (getChannelRanges acq (ic + 1)) - vmin (getChannelRanges acq (ic + 1))) /
         real_of_int (X2 - X1)"
    and f: "eoff (cal_loop cfg acq 0 st0) ic =
       vmin (getChannelRanges acq (ic + 1)) - real_of_int X1 *
              ((vmax (getChannelRanges acq (ic + 1)) - vmin (getChannelRanges acq (ic + 1))) /
                 real_of_int (X2 - X1))"
    using cal_loop_effect [of cfg acq 0 st0] assms by simp_all
  show ?thesis
    unfolding cc calibrate_def e f
    by (simp add: X1_def X2_def field_simps)
qed

text \<open>
  C5 on channel 0 of a card whose ranges are -5 to 5 volts.
\<close>

theorem C5_calibration_linear_witness:
  "(0::int) \<le> 0 \<and> 0 < nchan (example_cfg 1 4 2) \<and>
   vmin (getChannelRanges (example_card ST_STOP []) 1) = - 5 \<and>
   vmax (getChannelRanges (example_card ST_STOP []) 1) = 5 \<and>
   eslo (compute_cal (example_cfg 1 4 2) (example_card ST_STOP []) blank) 0 = 10 / 16777216 \<and>
   eoff (compute_cal (example_cfg 1 4 2) (example_card ST_STOP []) blank) 0 = 0 \<and>
   calibrate (compute_cal (example_cfg 1 4 2) (example_card ST_STOP []) blank) 0 (- 8388608) = - 5 \<and>
   calibrate (compute_cal (example_cfg 1 4 2) (example_card ST_STOP []) blank) 0 8388608 = 5 \<and>
   calibrate (compute_cal (example_cfg 1 4 2) (example_card ST_STOP []) blank) 0 0 = 0"
proof -
  have h: "(0::int) \<le> 0" "0 < nchan (example_cfg 1 4 2)"
    by (simp_all add: example_cfg_def)
  have r: "vmin (getChannelRanges (example_card ST_STOP []) (0 + 1)) = - 5"
    "vmax (getChannelRanges (example_card ST_STOP []) (0 + 1)) = 5"
    by (simp_all add: example_card_def)
  from C5_calibration_linear [OF h, of "example_card ST_STOP []" blank] r h
  show ?thesis
    by (simp add: X1_def X2_def)
qed

section \<open>The floor of the update time\<close>

text \<open>
  C6. Writing the update time stores the floor \<open>MIN_UPDATE_TIME = 0.02\<close> when the value
  is below it and the value itself otherwise; the warning is printed to the asyn trace
  exactly in the first case; and the status returned is the one \<^verbatim>\<open>callParamCallbacks\<close>
  gave (\<open>cb\<close>), so the write succeeds whenever the callbacks do.
\<close>

theorem C6_update_time_floor:
  "MIN_UPDATE_TIME = 0.02 \<and>
   fst (writeFloat64 cb P_UpdateTime v st) = cb \<and>
   dparams (snd (writeFloat64 cb P_UpdateTime v st)) 0 P_UpdateTime =
     (if v < MIN_UPDATE_TIME then MIN_UPDATE_TIME else v) \<and>
   (update_time_warning v \<in> set (new_events st (snd (writeFloat64 cb P_UpdateTime v st)))
      \<longleftrightarrow> v < MIN_UPDATE_TIME)"
  by (simp add: report_write_not_warning writeFloat64_def MIN_UPDATE_TIME_def new_events_def Let_def setDoubleParam_def
        emit_def)

text \<open>
  C6 on the values 0.01, below the floor, and 0.5, above it.
\<close>

theorem C6_update_time_floor_witness:
  "(0.01::real) < MIN_UPDATE_TIME \<and>
   fst (writeFloat64 asynSuccess P_UpdateTime 0.01 (example_dev 1 4)) = asynSuccess \<and>
   dparams (snd (writeFloat64 asynSuccess P_UpdateTime 0.01 (example_dev 1 4))) 0 P_UpdateTime = 0.02 \<and>
   update_time_warning 0.01 \<in>
     set (new_events (example_dev 1 4) (snd (writeFloat64 asynSuccess P_UpdateTime 0.01 (example_dev 1 4)))) \<and>
   \<not> (0.5::real) < MIN_UPDATE_TIME \<and>
   dparams (snd (writeFloat64 asynSuccess P_UpdateTime 0.5 (example_dev 1 4))) 0 P_UpdateTime = 0.5 \<and>
   update_time_warning 0.5 \<notin>
     set (new_events (example_dev 1 4) (snd (writeFloat64 asynSuccess P_UpdateTime 0.5 (example_dev 1 4))))"
  using C6_update_time_floor [of asynSuccess "0.01" "example_dev 1 4"]
        C6_update_time_floor [of asynSuccess "0.5" "example_dev 1 4"]
  by (simp add: MIN_UPDATE_TIME_def)

section \<open>The time base\<close>

text \<open>
  C7. The constructor leaves a time base of \<open>maxPoints\<close> elements (the effective value,
  100 when the argument is below 1) whose element \<open>i\<close> is
  \<open>i / (maxPoints - 1) * NUM_DIVISIONS\<close> with \<open>NUM_DIVISIONS = 10\<close>; for \<open>maxPoints = 1\<close>
  the quotient is \<open>0.0 / 0\<close>, which is not a number. No operation of the driver changes
  the time base afterwards: not the two write functions, the array read, the frame
  handler or the whole streaming task.
\<close>

theorem C7_time_base:
  "length (pTimeBase (Acq164Device_ctor maxPoints_arg nchan_arg a st)) = nat (effective_maxPoints maxPoints_arg) \<and>
   (\<forall>i. 0 \<le> i \<and> i < effective_maxPoints maxPoints_arg \<longrightarrow>
      pTimeBase (Acq164Device_ctor maxPoints_arg nchan_arg a st) ! nat i =
        (if effective_maxPoints maxPoints_arg = 1 then None
         else Some (real_of_int i / real_of_int (effective_maxPoints maxPoints_arg - 1) * 10))) \<and>
   NUM_DIVISIONS = 10 \<and>
   pTimeBase (snd (writeInt32 cb p n s)) = pTimeBase s \<and>
   pTimeBase (snd (writeFloat64 cb p x s)) = pTimeBase s \<and>
   pTimeBase (dev (state_of (readFloat64Array w p val0 nElements nIn0 s))) = pTimeBase s \<and>
   pTimeBase (state_of (onFrame cfg fr s)) = pTimeBase s \<and>
   pTimeBase (state_of (task cfg acq s)) = pTimeBase s"
proof -
  let ?m = "effective_maxPoints maxPoints_arg"
  have m: "1 \<le> ?m"
    by (simp add: effective_maxPoints_def)
  have tb: "pTimeBase (Acq164Device_ctor maxPoints_arg nchan_arg a st) =
            timebase_loop ?m 0 (replicate (nat ?m) (Some 0))"
    by (simp add: Acq164Device_ctor_def Let_def)
  have l: "length (timebase_loop ?m 0 (replicate (nat ?m) (Some 0))) = nat ?m"
    using timebase_loop_effect [of 0 ?m "replicate (nat ?m) (Some 0)"] by simp
  have n: "timebase_loop ?m 0 (replicate (nat ?m) (Some 0)) ! nat i =
        (if ?m = 1 then None else Some (real_of_int i / real_of_int (?m - 1) * 10))"
    if "0 \<le> i" "i < ?m" for i
  proof -
    have "nat i < length (replicate (nat ?m) (Some (0::real)))"
      using that by simp
    with timebase_loop_effect [of 0 ?m "replicate (nat ?m) (Some 0)"] that
    have "timebase_loop ?m 0 (replicate (nat ?m) (Some 0)) ! nat i = timebase_value ?m i"
      by simp
    with that show ?thesis
      by (simp add: timebase_value_closed)
  qed
  have w1: "pTimeBase (snd (writeInt32 cb p n s)) = pTimeBase s"
    by (simp add: writeInt32_def Let_def)
  have w2: "pTimeBase (snd (writeFloat64 cb p x s)) = pTimeBase s"
    by (simp add: writeFloat64_def Let_def)
  have r: "pTimeBase (dev (state_of (readFloat64Array w p val0 nElements nIn0 s))) = pTimeBase s"
    by (simp add: readFloat64Array_def Let_def state_of_simps)
  show ?thesis
    unfolding tb using l n w1 w2 r
    by (simp add: NUM_DIVISIONS_def onFrame_pTimeBase task_pTimeBase)
qed

text \<open>
  C7 for three points (0, 5 and 10), for one point, and for the argument 0.
\<close>

theorem C7_time_base_witness:
  "(0::int) \<le> 1 \<and> 1 < effective_maxPoints 3 \<and>
   pTimeBase (Acq164Device_ctor 3 1 example_acc blank) ! 0 = Some 0 \<and>
   pTimeBase (Acq164Device_ctor 3 1 example_acc blank) ! 1 = Some 5 \<and>
   pTimeBase (Acq164Device_ctor 3 1 example_acc blank) ! 2 = Some 10 \<and>
   length (pTimeBase (Acq164Device_ctor 3 1 example_acc blank)) = 3 \<and>
   pTimeBase (Acq164Device_ctor 1 1 example_acc blank) ! 0 = None \<and>
   length (pTimeBase (Acq164Device_ctor 0 1 example_acc blank)) = 100"
proof -
  have e: "effective_maxPoints 3 = 3" "effective_maxPoints 1 = 1" "effective_maxPoints 0 = 100"
    by (simp_all add: effective_maxPoints_def)
  note t3 = C7_time_base [where maxPoints_arg = 3 and nchan_arg = 1 and a = example_acc and st = blank,
      unfolded e, THEN conjunct2, THEN conjunct1]
  note l3 = C7_time_base [where maxPoints_arg = 3 and nchan_arg = 1 and a = example_acc and st = blank,
      unfolded e, THEN conjunct1]
  note t1 = C7_time_base [where maxPoints_arg = 1 and nchan_arg = 1 and a = example_acc and st = blank,
      unfolded e, THEN conjunct2, THEN conjunct1]
  note l0 = C7_time_base [where maxPoints_arg = 0 and nchan_arg = 1 and a = example_acc and st = blank,
      unfolded e, THEN conjunct1]
  have a0: "pTimeBase (Acq164Device_ctor 3 1 example_acc blank) ! 0 = Some 0"
    using t3 [THEN spec, of 0] by simp
  have a1: "pTimeBase (Acq164Device_ctor 3 1 example_acc blank) ! 1 = Some 5"
    using t3 [THEN spec, of 1] by simp
  have a2: "pTimeBase (Acq164Device_ctor 3 1 example_acc blank) ! 2 = Some 10"
    using t3 [THEN spec, of 2] by simp
  have b0: "pTimeBase (Acq164Device_ctor 1 1 example_acc blank) ! 0 = None"
    using t1 [THEN spec, of 0] by simp
  from a0 a1 a2 l3 b0 l0 show ?thesis
    by (simp add: e)
qed

section \<open>Stores beyond the segment of a channel\<close>

text \<open>
  C8. Let there be at least one channel, \<open>maxPoints \<ge> 1\<close>, \<open>FRAME_SAMPLES \<ge> 1\<close>, a
  waveform array of \<open>nchan * maxPoints\<close> elements (what the constructor allocates), the
  cursor at 0 and a non-zero scan frequency. First, whenever
  \<open>cursor + FRAME_SAMPLES > maxPoints\<close>, every channel has a sample index whose store
  index \<open>ic * maxPoints + cursor + idx\<close> is at or beyond the end of the channel's segment.
  Second, a frame handled with such a cursor is never completed: unless the zero fault
  ends it, the store of the last channel is outside the allocated array. Third,
  in every state reached by a sequence of processed frames the store indices of every
  channel lie inside the channel's segment if and only if \<open>FRAME_SAMPLES\<close> divides
  \<open>maxPoints\<close>.
\<close>

theorem C8_writes_leave_segment:
  assumes "1 \<le> nchan cfg" and "1 \<le> maxPoints cfg" and "1 \<le> FRAME_SAMPLES cfg"
    and "cursor st0 = 0" and "iparams st0 P_ScanFreq \<noteq> 0"
    and "length (pData st0) = nat (nchan cfg * maxPoints cfg)"
  shows
    "(\<forall>cur ic. maxPoints cfg < cur + FRAME_SAMPLES cfg \<longrightarrow>
        (\<exists>idx. 0 \<le> idx \<and> idx < FRAME_SAMPLES cfg \<and>
               (ic + 1) * maxPoints cfg \<le> write_index cfg cur ic idx)) \<and>
     (\<forall>st fr. maxPoints cfg < cursor st + FRAME_SAMPLES cfg \<and>
        length (pData st) = nat (nchan cfg * maxPoints cfg) \<longrightarrow>
        halt_of (onFrame cfg fr st) = Some (Exit 1) \<or>
        halt_of (onFrame cfg fr st) = Some OutOfBounds) \<and>
     (FRAME_SAMPLES cfg dvd maxPoints cfg \<longleftrightarrow>
        (\<forall>frs st ic idx.
           streamData cfg frs st0 = Continue st \<and> 0 \<le> ic \<and> ic < nchan cfg \<and>
           0 \<le> idx \<and> idx < FRAME_SAMPLES cfg \<longrightarrow>
           ic * maxPoints cfg \<le> write_index cfg (cursor st) ic idx \<and>
           write_index cfg (cursor st) ic idx < (ic + 1) * maxPoints cfg))"
proof (intro conjI)
  show "\<forall>cur ic. maxPoints cfg < cur + FRAME_SAMPLES cfg \<longrightarrow>
        (\<exists>idx. 0 \<le> idx \<and> idx < FRAME_SAMPLES cfg \<and>
               (ic + 1) * maxPoints cfg \<le> write_index cfg cur ic idx)"
  proof (intro allI impI)
    fix cur ic
    assume "maxPoints cfg < cur + FRAME_SAMPLES cfg"
    then have "(ic + 1) * maxPoints cfg \<le> write_index cfg cur ic (FRAME_SAMPLES cfg - 1)"
      by (simp add: write_index_def algebra_simps)
    with assms(3) show "\<exists>idx. 0 \<le> idx \<and> idx < FRAME_SAMPLES cfg \<and>
               (ic + 1) * maxPoints cfg \<le> write_index cfg cur ic idx"
      by (intro exI [of _ "FRAME_SAMPLES cfg - 1"]) simp
  qed
next
  show "\<forall>st fr. maxPoints cfg < cursor st + FRAME_SAMPLES cfg \<and>
        length (pData st) = nat (nchan cfg * maxPoints cfg) \<longrightarrow>
        halt_of (onFrame cfg fr st) = Some (Exit 1) \<or>
        halt_of (onFrame cfg fr st) = Some OutOfBounds"
    using onFrame_overrun [OF assms(1,2,3)] by blast
next
  let ?fs = "FRAME_SAMPLES cfg" and ?m = "maxPoints cfg"
  let ?inside = "\<forall>frs st ic idx.
           streamData cfg frs st0 = Continue st \<and> 0 \<le> ic \<and> ic < nchan cfg \<and>
           0 \<le> idx \<and> idx < ?fs \<longrightarrow>
           ic * ?m \<le> write_index cfg (cursor st) ic idx \<and>
           write_index cfg (cursor st) ic idx < (ic + 1) * ?m"
  show "?fs dvd ?m \<longleftrightarrow> ?inside"
  proof
    assume d: "?fs dvd ?m"
    show ?inside
    proof (intro allI impI)
      fix frs st ic idx
      assume a: "streamData cfg frs st0 = Continue st \<and> 0 \<le> ic \<and> ic < nchan cfg \<and>
           0 \<le> idx \<and> idx < ?fs"
      then have r: "streamData cfg frs st0 = Continue st" by simp
      have c1: "?fs dvd cursor st \<and> 0 \<le> cursor st"
        using stream_cursor_multiple [OF d assms(3) r] assms(4) by simp
      have c2: "cursor st < ?m"
        using streamData_cursor [OF assms(2) _ r] assms(2,3,4) by simp
      have "cursor st + ?fs \<le> ?m"
        using c1 d c2 assms(3) by (intro multiple_fits) simp_all
      with a c1 show "ic * ?m \<le> write_index cfg (cursor st) ic idx \<and>
           write_index cfg (cursor st) ic idx < (ic + 1) * ?m"
        by (simp add: write_index_def algebra_simps)
    qed
  next
    assume inside: ?inside
    show "?fs dvd ?m"
    proof (rule ccontr)
      assume nd: "\<not> ?fs dvd ?m"
      define n where "n = nat (?m div ?fs)"
      have q: "0 \<le> ?m div ?fs"
        using assms(2,3) by (simp add: pos_imp_zdiv_nonneg_iff)
      have md: "?m mod ?fs \<noteq> 0"
        using nd by (simp add: dvd_eq_mod_eq_0)
      have fp: "0 < ?fs"
        using assms(3) by simp
      have mp: "0 < ?m mod ?fs" "?m mod ?fs < ?fs"
        using md pos_mod_sign [OF fp, of ?m] pos_mod_bound [OF fp, of ?m] by linarith+
      have eq: "?m = ?fs * (?m div ?fs) + ?m mod ?fs"
        by simp
      have nn: "int n * ?fs = ?fs * (?m div ?fs)"
        using q by (simp add: n_def mult.commute)
      have n1: "int n * ?fs < ?m"
        unfolding nn using eq mp(1) by linarith
      have n2: "?m < int n * ?fs + ?fs"
        unfolding nn using eq mp(2) by linarith
      from stream_fills [where fr = frame_ones, OF assms(3,4,6,5) _ n1]
      obtain st where r: "streamData cfg (replicate n frame_ones) st0 = Continue st"
        and c: "cursor st = int n * ?fs"
        by (auto simp: frame_ones_def frame_of_def)
      from inside r assms(1,3)
      have "write_index cfg (cursor st) 0 (?fs - 1) < (0 + 1) * ?m"
        by (metis add_0 diff_ge_0_iff_ge zle_diff1_eq zless_add1_eq order_refl less_le)
      with n2 c show False
        by (simp add: write_index_def)
    qed
  qed
qed

text \<open>
  C8 on two channels of 3 points and frames of 2 samples: after the first frame the
  cursor is 2; in the second frame the store of channel index 0 at sample 1 goes to
  index 3, the first element of the segment of channel index 1, and the handler stops at
  the store of the last channel outside the array.
\<close>

theorem C8_writes_leave_segment_witness:
  "1 \<le> nchan (example_cfg 2 3 2) \<and> 1 \<le> maxPoints (example_cfg 2 3 2) \<and>
   1 \<le> FRAME_SAMPLES (example_cfg 2 3 2) \<and> cursor (example_dev 2 3) = 0 \<and>
   iparams (example_dev 2 3) P_ScanFreq \<noteq> 0 \<and>
   length (pData (example_dev 2 3)) = nat (nchan (example_cfg 2 3 2) * maxPoints (example_cfg 2 3 2)) \<and>
   \<not> FRAME_SAMPLES (example_cfg 2 3 2) dvd maxPoints (example_cfg 2 3 2) \<and>
   cursor (state_of (onFrame (example_cfg 2 3 2) frame_ones (example_dev 2 3))) = 2 \<and>
   write_index (example_cfg 2 3 2) 2 0 1 = 3 \<and>
   pData (state_of (sample_loop (example_cfg 2 3 2) frame_ones 0 0 0
     (state_of (onFrame (example_cfg 2 3 2) frame_ones (example_dev 2 3))))) ! 3 = 5 / 8388608 \<and>
   halt_of (onFrame (example_cfg 2 3 2) frame_ones
     (state_of (onFrame (example_cfg 2 3 2) frame_ones (example_dev 2 3)))) = Some OutOfBounds"
proof -
  let ?cfg = "example_cfg 2 3 2"
  let ?s1 = "state_of (onFrame ?cfg frame_ones (example_dev 2 3))"
  have m: "nchan ?cfg = 2" "maxPoints ?cfg = 3" "FRAME_SAMPLES ?cfg = 2"
    by (simp_all add: example_cfg_def)
  have h1: "1 \<le> nchan ?cfg" and h2: "1 \<le> maxPoints ?cfg" and h3: "1 \<le> FRAME_SAMPLES ?cfg"
    by (simp_all add: m)
  have h4: "cursor (example_dev 2 3) = 0"
    by (simp add: cal_loop.simps example_defs)
  have h5: "iparams (example_dev 2 3) P_ScanFreq \<noteq> 0"
    by (simp add: example_dev_def setIntegerParam_def)
  have h6: "length (pData (example_dev 2 3)) = nat (nchan ?cfg * maxPoints ?cfg)"
    by (simp add: cal_loop.simps example_defs)
  have nd: "\<not> FRAME_SAMPLES ?cfg dvd maxPoints ?cfg"
    by (simp add: m)
  have c1: "cursor ?s1 = 2"
    by (simp add: run_defs)
  have l1: "length (pData ?s1) = nat (nchan ?cfg * maxPoints ?cfg)"
    by (simp add: run_defs)
  have w: "write_index ?cfg 2 0 1 = 3"
    by (simp add: write_index_def m)
  have p: "pData (state_of (sample_loop ?cfg frame_ones 0 0 0 ?s1)) ! 3 = 5 / 8388608"
    by (simp add: run_defs eval_nat_numeral)
  have ne: "halt_of (onFrame ?cfg frame_ones ?s1) \<noteq> Some (Exit 1)"
    by (simp add: run_defs)
  note t = C8_writes_leave_segment [OF h1 h2 h3 h4 h5 h6]
  from t have "halt_of (onFrame ?cfg frame_ones ?s1) = Some (Exit 1) \<or>
               halt_of (onFrame ?cfg frame_ones ?s1) = Some OutOfBounds"
    using c1 l1 by (simp add: m)
  with ne have ob: "halt_of (onFrame ?cfg frame_ones ?s1) = Some OutOfBounds"
    by simp
  from h1 h2 h3 h4 h5 h6 nd c1 w p ob show ?thesis
    by blast
qed

section \<open>The flush period\<close>

text \<open>
  C9. On a frame whose samples were all stored (no fault), the handler reads the scan
  frequency from the parameter library as it is at this call and passes
  \<^verbatim>\<open>NSPS / scan_freq\<close>, C's truncating quotient, to the accumulator's \<^verbatim>\<open>update_timestamp\<close>
  with no guard and no clamping; with a scan frequency of 0 the division is undefined
  and the frame is not completed.
\<close>

theorem C9_flush_period:
  assumes "chan_loop cfg fr 0 st = Continue st1"
  shows "onFrame cfg fr st =
     (if iparams st P_ScanFreq = 0
      then Halt DivisionByZero (st1\<lparr>cursor := cursor st1 + FRAME_SAMPLES cfg\<rparr>)
      else Continue (publish cfg fr
             (flush cfg (sgn (NSPS cfg) * sgn (iparams st P_ScanFreq) *
                          (\<bar>NSPS cfg\<bar> div \<bar>iparams st P_ScanFreq\<bar>))
                (st1\<lparr>cursor := cursor st1 + FRAME_SAMPLES cfg\<rparr>))))"
  using assms chan_loop_effect [where cfg = cfg and fr = fr and ic = 0 and st = st]
  by (simp add: onFrame_def Let_def c_div_def unchanged_def)

text \<open>
  C9 with \<open>NSPS = 1000\<close>: a scan frequency of 10 gives the period 100, a scan frequency of
  0 stops the handler at the division.
\<close>

theorem C9_flush_period_witness:
  "halt_of (chan_loop (example_cfg 1 4 2) frame_ones 0 (example_dev 1 4)) = None \<and>
   iparams (example_dev 1 4) P_ScanFreq = 10 \<and>
   onFrame (example_cfg 1 4 2) frame_ones (example_dev 1 4) =
     Continue (publish (example_cfg 1 4 2) frame_ones
       (flush (example_cfg 1 4 2) 100
          ((state_of (chan_loop (example_cfg 1 4 2) frame_ones 0 (example_dev 1 4)))\<lparr>cursor := 2\<rparr>))) \<and>
   halt_of (chan_loop (example_cfg 1 4 2) frame_ones 0 (setIntegerParam P_ScanFreq 0 (example_dev 1 4))) = None \<and>
   halt_of (onFrame (example_cfg 1 4 2) frame_ones (setIntegerParam P_ScanFreq 0 (example_dev 1 4)))
     = Some DivisionByZero"
proof -
  let ?cfg = "example_cfg 1 4 2"
  let ?st1 = "state_of (chan_loop ?cfg frame_ones 0 (example_dev 1 4))"
  let ?dev0 = "setIntegerParam P_ScanFreq 0 (example_dev 1 4)"
  let ?st0 = "state_of (chan_loop ?cfg frame_ones 0 ?dev0)"
  have n1: "halt_of (chan_loop ?cfg frame_ones 0 (example_dev 1 4)) = None"
    by (simp add: run_defs)
  have n0: "halt_of (chan_loop ?cfg frame_ones 0 ?dev0) = None"
    by (simp add: run_defs)
  have sf: "iparams (example_dev 1 4) P_ScanFreq = 10" "iparams ?dev0 P_ScanFreq = 0"
    by (simp_all add: example_dev_def setIntegerParam_def)
  have c: "cursor ?st1 = 0"
    by (simp add: run_defs)
  have m: "NSPS ?cfg = 1000" "FRAME_SAMPLES ?cfg = 2"
    by (simp_all add: example_cfg_def)
  have a: "onFrame ?cfg frame_ones (example_dev 1 4) =
     Continue (publish ?cfg frame_ones (flush ?cfg 100 (?st1\<lparr>cursor := 2\<rparr>)))"
    using C9_flush_period [OF Continue_state_of [OF n1]] by (simp add: sf c m)
  have b: "halt_of (onFrame ?cfg frame_ones ?dev0) = Some DivisionByZero"
    using C9_flush_period [OF Continue_state_of [OF n0]] by (simp add: sf halt_of_def)
  from n1 n0 sf a b show ?thesis by blast
qed

section \<open>Reading arrays\<close>

text \<open>
  C10. A read of the waveform parameter ends at \<^verbatim>\<open>assert(0)\<close> with nothing copied. A
  read of the time base copies \<open>min(maxPoints, nElements)\<close> elements of it into the
  caller's array and reports that number, where \<open>maxPoints\<close> is the parameter
  \<^verbatim>\<open>P_MaxPoints\<close> (non-negative, within \<^verbatim>\<open>size_t\<close> and not above the size of the time
  base, as the constructor sets it) and the caller's array has room for \<open>nElements\<close>. A
  read of any other parameter copies nothing and leaves the count as it was.
\<close>

theorem C10_read_array:
  "readFloat64Array w P_Waveform buf nElements count st =
     Halt AssertionFailed \<lparr>status = asynSuccess, val = buf, nIn = count, dev = st\<rparr> \<and>
   (0 \<le> iparams st P_MaxPoints \<and> iparams st P_MaxPoints < 2 ^ w \<and>
    nat (iparams st P_MaxPoints) \<le> length (pTimeBase st) \<and> nElements \<le> length buf \<longrightarrow>
      halt_of (readFloat64Array w P_TimeBase buf nElements count st) = None \<and>
      status (state_of (readFloat64Array w P_TimeBase buf nElements count st)) = asynSuccess \<and>
      nIn (state_of (readFloat64Array w P_TimeBase buf nElements count st)) =
        min (nat (iparams st P_MaxPoints)) nElements \<and>
      val (state_of (readFloat64Array w P_TimeBase buf nElements count st)) =
        take (min (nat (iparams st P_MaxPoints)) nElements) (pTimeBase st) @
        drop (min (nat (iparams st P_MaxPoints)) nElements) buf) \<and>
   (reason \<noteq> P_Waveform \<and> reason \<noteq> P_TimeBase \<longrightarrow>
      halt_of (readFloat64Array w reason buf nElements count st) = None \<and>
      val (state_of (readFloat64Array w reason buf nElements count st)) = buf \<and>
      nIn (state_of (readFloat64Array w reason buf nElements count st)) = count)"
proof -
  have sz: "to_size_t w (iparams st P_MaxPoints) = nat (iparams st P_MaxPoints)"
    if "0 \<le> iparams st P_MaxPoints" "iparams st P_MaxPoints < 2 ^ w"
    using that by (simp add: to_size_t_def)
  show ?thesis
    by (auto simp: readFloat64Array_def Let_def sz halt_of_simps state_of_simps min_def)
qed

text \<open>
  C10 on a time base of three points read into an array of two elements.
\<close>

theorem C10_read_array_witness:
  "0 \<le> iparams (Acq164Device_ctor 3 1 example_acc blank) P_MaxPoints \<and>
   iparams (Acq164Device_ctor 3 1 example_acc blank) P_MaxPoints < 2 ^ 64 \<and>
   nat (iparams (Acq164Device_ctor 3 1 example_acc blank) P_MaxPoints) \<le> length (pTimeBase (Acq164Device_ctor 3 1 example_acc blank)) \<and>
   (2::nat) \<le> length [None, None :: real option] \<and>
   halt_of (readFloat64Array 64 P_TimeBase [None, None] 2 0 (Acq164Device_ctor 3 1 example_acc blank)) = None \<and>
   nIn (state_of (readFloat64Array 64 P_TimeBase [None, None] 2 0 (Acq164Device_ctor 3 1 example_acc blank))) = 2 \<and>
   val (state_of (readFloat64Array 64 P_TimeBase [None, None] 2 0 (Acq164Device_ctor 3 1 example_acc blank))) =
     [Some 0, Some 5] \<and>
   P_Scalar \<noteq> P_Waveform \<and> P_Scalar \<noteq> P_TimeBase \<and>
   nIn (state_of (readFloat64Array 64 P_Scalar [None, None] 2 0 (Acq164Device_ctor 3 1 example_acc blank))) = 0 \<and>
   val (state_of (readFloat64Array 64 P_Scalar [None, None] 2 0 (Acq164Device_ctor 3 1 example_acc blank))) =
     [None, None] \<and>
   halt_of (readFloat64Array 64 P_Waveform [None, None] 2 0 (Acq164Device_ctor 3 1 example_acc blank)) =
     Some AssertionFailed"
proof -
  let ?st = "Acq164Device_ctor 3 1 example_acc blank"
  have p: "iparams ?st P_MaxPoints = 3"
    by (simp add: Acq164Device_ctor_def effective_maxPoints_def Let_def setIntegerParam_def)
  have t: "pTimeBase ?st = [Some 0, Some 5, Some 10]"
    by (simp add: Acq164Device_ctor_def effective_maxPoints_def Let_def timebase_loop.simps
          timebase_value_def fp_div_def NUM_DIVISIONS_def eval_nat_numeral)
  note r = C10_read_array [where w = 64 and st = ?st and buf = "[None, None]"
      and nElements = 2 and count = 0 and reason = P_Scalar]
  from r show ?thesis
    by (simp add: p t halt_of_simps)
qed

end
